theory Spec2Isabelle
  imports Complex_Main "HOL-Library.Word" "HOL-Library.Multiset"
begin

section \<open>Go values used by the middleware\<close>

text \<open>
  The development follows \<^verbatim>\<open>prometheus.go\<close> (the current version of the file, with
  the four instruments). Go's \<^verbatim>\<open>int\<close> is taken at its 64-bit width, like
  \<^verbatim>\<open>int64\<close>: addition wraps around silently. A Go string is a byte sequence and
  \<^verbatim>\<open>len\<close> counts its bytes, so it is a \<^typ>\<open>string\<close> here and
  \<^verbatim>\<open>len\<close> is \<^const>\<open>length\<close> read into a 64-bit word.
\<close>

type_synonym go_int = "64 word"
type_synonym int64 = "64 word"

definition len :: "'a list \<Rightarrow> go_int" where
  "len xs = of_nat (length xs)"

subsection \<open>Library functions: \<^verbatim>\<open>strconv.Itoa\<close> and \<^verbatim>\<open>strings.ToLower\<close>\<close>

text \<open>
  Both belong to Go's standard library. \<^verbatim>\<open>Itoa\<close> prints a signed integer in base 10,
  with a leading minus sign for a negative one. \<^verbatim>\<open>ToLower\<close> is modelled on ASCII
  input, where it maps \<^verbatim>\<open>A\<close>..\<^verbatim>\<open>Z\<close> to \<^verbatim>\<open>a\<close>..\<^verbatim>\<open>z\<close> and leaves every other byte
  alone (HTTP method names are ASCII tokens).
\<close>

definition digit_char :: "nat \<Rightarrow> char" where
  "digit_char d = char_of (48 + d)"

fun decimal :: "nat \<Rightarrow> string" where
  "decimal n = (if n < 10 then [digit_char n] else decimal (n div 10) @ [digit_char (n mod 10)])"

declare decimal.simps [simp del]

definition Itoa :: "int \<Rightarrow> string" where
  "Itoa i = (if i < 0 then CHR ''-'' # decimal (nat (- i)) else decimal (nat i))"

definition lower_byte :: "char \<Rightarrow> char" where
  "lower_byte c =
     (if (65::nat) \<le> of_char c \<and> of_char c \<le> (90::nat) then char_of (of_char c + (32::nat)) else c)"

definition ToLower :: "string \<Rightarrow> string" where
  "ToLower m = map lower_byte m"

subsection \<open>The request\<close>

text \<open>
  \<^verbatim>\<open>http.Request\<close>, with the fields the middleware reads. \<^verbatim>\<open>URL\<close> is a pointer
  that may be nil. \<^verbatim>\<open>Header\<close> is a Go map from a name to its values; it is listed
  here in the order the \<^verbatim>\<open>range\<close> loop visits it. \<^verbatim>\<open>route\<close> is the route that
  gorilla/mux stored in the request's context, if any.
\<close>

record url_URL =
  Path :: string

record mux_Route =
  err :: "string option"
  template :: "string option"

record http_Request =
  Method :: string
  URL :: "url_URL option"
  Proto :: string
  Header :: "(string \<times> string list) list"
  ContentLength :: int64
  Host :: string
  route :: "mux_Route option"

subsection \<open>gorilla/mux: the current route and its path template\<close>

text \<open>
  \<^verbatim>\<open>mux.CurrentRoute\<close> returns the route of the request's context, or nil when the
  request carries none. \<^verbatim>\<open>Route.GetPathTemplate\<close> reads the fields of its receiver
  at once, so a nil receiver is a nil pointer dereference, which panics; otherwise it
  returns the route's error, or an error when the route has no path, or the template.
\<close>

datatype panic = NilPointerDereference

definition CurrentRoute :: "http_Request \<Rightarrow> mux_Route option" where
  "CurrentRoute r = route r"

definition GetPathTemplate :: "mux_Route option \<Rightarrow> panic + (string \<times> string option)" where
  "GetPathTemplate rt =
     (case rt of
        None \<Rightarrow> Inl NilPointerDereference
      | Some x \<Rightarrow>
          (case err x of
             Some e \<Rightarrow> Inr ([], Some e)
           | None \<Rightarrow>
               (case template x of
                  None \<Rightarrow> Inr ([], Some ''mux: route doesn't have a path'')
                | Some t \<Rightarrow> Inr (t, None))))"

section \<open>The helpers of the middleware\<close>

definition sanitizeMethod :: "string \<Rightarrow> string" where
  "sanitizeMethod m = ToLower m"

definition sanitizeCode :: "int \<Rightarrow> string" where
  "sanitizeCode s = Itoa s"

text \<open>The two nested \<^verbatim>\<open>range\<close> loops of \<^verbatim>\<open>computeApproximateRequestSize\<close>.\<close>

fun values_loop :: "string list \<Rightarrow> go_int \<Rightarrow> go_int" where
  "values_loop [] s = s"
| "values_loop (v # vs) s = values_loop vs (s + len v)"

fun header_loop :: "(string \<times> string list) list \<Rightarrow> go_int \<Rightarrow> go_int" where
  "header_loop [] s = s"
| "header_loop ((name, vals) # hs) s = header_loop hs (values_loop vals (s + len name))"

definition computeApproximateRequestSize :: "http_Request \<Rightarrow> go_int" where
  "computeApproximateRequestSize r =
     (let s0 = (case URL r of None \<Rightarrow> 0 | Some u \<Rightarrow> len (Path u));
          s1 = s0 + len (Method r);
          s2 = s1 + len (Proto r);
          s3 = header_loop (Header r) s2;
          s4 = s3 + len (Host r)
      in if ContentLength r \<noteq> - 1 then s4 + ContentLength r else s4)"

section \<open>Response sinks and handlers\<close>

text \<open>
  \<^verbatim>\<open>http.ResponseWriter\<close> is an interface: any value with the methods
  \<^verbatim>\<open>Header\<close>, \<^verbatim>\<open>Write\<close> and \<^verbatim>\<open>WriteHeader\<close>. A sink is modelled by its methods as
  functions on the sink's own state \<^typ>\<open>'s\<close>. \<^verbatim>\<open>Write\<close> returns the pair
  \<^verbatim>\<open>(n, err)\<close>. \<^verbatim>\<open>Header\<close> hands out the sink's header map, which the handler
  changes in place: \<open>rwHeaderSet\<close> is that change.

  A sink may have more methods than the interface asks for, and a handler finds out with
  a type assertion. \<^verbatim>\<open>http.Flusher\<close> stands for these further interfaces here
  (\<^verbatim>\<open>http.Hijacker\<close>, \<^verbatim>\<open>http.Pusher\<close> and \<^verbatim>\<open>io.ReaderFrom\<close> are found the same
  way): \<open>rwFlusher\<close> is the sink's \<^verbatim>\<open>Flush\<close> method, if it has one.
\<close>

type_synonym write_result = "go_int \<times> string option"

record 's http_ResponseWriter =
  rwWriteHeader :: "int \<Rightarrow> 's \<Rightarrow> 's"
  rwWrite :: "string \<Rightarrow> 's \<Rightarrow> write_result \<times> 's"
  rwHeaderSet :: "string \<Rightarrow> string \<Rightarrow> 's \<Rightarrow> 's"
  rwFlusher :: "('s \<Rightarrow> 's) option"

text \<open>
  An inner handler, for one request, is the tree of the calls it makes on its sink; what
  it does after a write may depend on the \<^verbatim>\<open>(n, err)\<close> the write returned. It reads
  the request and does not change it, and it returns (a handler that panics or never
  returns records nothing). \<open>AssertFlusher\<close> is the checked type assertion
  \<^verbatim>\<open>f, ok := w.(http.Flusher)\<close>, and what the handler does next may depend on \<open>ok\<close>;
  \<open>CallFlush\<close> is \<^verbatim>\<open>f.Flush()\<close>, which a handler reaches after a successful assertion
  only, so that on a sink without \<^verbatim>\<open>Flush\<close> it does nothing here.
\<close>

datatype handler =
    Return
  | CallWriteHeader int handler
  | CallWrite string "write_result \<Rightarrow> handler"
  | CallHeaderSet string string handler
  | AssertFlusher "bool \<Rightarrow> handler"
  | CallFlush handler

datatype event =
    EvWriteHeader int
  | EvWrite string write_result
  | EvHeaderSet string string
  | EvAssertFlusher bool
  | EvFlush

text \<open>
  \<^verbatim>\<open>next.ServeHTTP(w, r)\<close>: runs the handler against a sink, and returns the calls
  the handler made, with the results it got, and the sink afterwards.
\<close>

primrec ServeHTTP :: "'s http_ResponseWriter \<Rightarrow> handler \<Rightarrow> 's \<Rightarrow> event list \<times> 's" where
  "ServeHTTP w Return s = ([], s)"
| "ServeHTTP w (CallWriteHeader code k) s =
     (let (tr, s') = ServeHTTP w k (rwWriteHeader w code s) in (EvWriteHeader code # tr, s'))"
| "ServeHTTP w (CallWrite b k) s =
     (let (res, s1) = rwWrite w b s;
          (tr, s') = ServeHTTP w (k res) s1
      in (EvWrite b res # tr, s'))"
| "ServeHTTP w (CallHeaderSet name v k) s =
     (let (tr, s') = ServeHTTP w k (rwHeaderSet w name v s) in (EvHeaderSet name v # tr, s'))"
| "ServeHTTP w (AssertFlusher k) s =
     (let ok = (rwFlusher w \<noteq> None);
          (tr, s') = ServeHTTP w (k ok) s
      in (EvAssertFlusher ok # tr, s'))"
| "ServeHTTP w (CallFlush k) s =
     (let (tr, s') = ServeHTTP w k (case rwFlusher w of None \<Rightarrow> s | Some flush \<Rightarrow> flush s)
      in (EvFlush # tr, s'))"

subsection \<open>\<^verbatim>\<open>responseWriterDelegator\<close>\<close>

text \<open>
  The struct embeds the sink it wraps; the field \<open>ResponseWriter\<close> holds that sink's
  state. \<^verbatim>\<open>Header\<close> is not redefined by the delegator, so Go promotes the embedded
  sink's method: a header change goes to the wrapped sink as it is. The embedded field has
  the interface type \<^verbatim>\<open>http.ResponseWriter\<close>, so these three methods are all the
  delegator has: whatever the wrapped sink is, the delegator is no \<^verbatim>\<open>http.Flusher\<close>.
\<close>

record 's responseWriterDelegator =
  ResponseWriter :: 's
  status :: int
  written :: int64
  wroteHeader :: bool

definition StatusOK :: int where
  "StatusOK = 200"

definition WriteHeader ::
  "'s http_ResponseWriter \<Rightarrow> int \<Rightarrow> 's responseWriterDelegator \<Rightarrow> 's responseWriterDelegator" where
  "WriteHeader w code r =
     r\<lparr>status := code, wroteHeader := True,
       ResponseWriter := rwWriteHeader w code (ResponseWriter r)\<rparr>"

definition Write ::
  "'s http_ResponseWriter \<Rightarrow> string \<Rightarrow> 's responseWriterDelegator
     \<Rightarrow> write_result \<times> 's responseWriterDelegator" where
  "Write w b r0 =
     (let r = (if \<not> wroteHeader r0 then WriteHeader w StatusOK r0 else r0);
          (res, s') = rwWrite w b (ResponseWriter r)
      in (res, r\<lparr>ResponseWriter := s', written := written r + fst res\<rparr>))"

definition HeaderSet ::
  "'s http_ResponseWriter \<Rightarrow> string \<Rightarrow> string \<Rightarrow> 's responseWriterDelegator
     \<Rightarrow> 's responseWriterDelegator" where
  "HeaderSet w name v r = r\<lparr>ResponseWriter := rwHeaderSet w name v (ResponseWriter r)\<rparr>"

text \<open>The delegator around a sink \<open>w\<close> is itself a sink, the one the inner handler gets.\<close>

definition delegator :: "'s http_ResponseWriter \<Rightarrow> ('s responseWriterDelegator) http_ResponseWriter" where
  "delegator w =
     \<lparr>rwWriteHeader = WriteHeader w, rwWrite = Write w, rwHeaderSet = HeaderSet w,
      rwFlusher = None\<rparr>"

section \<open>The instruments and the registry\<close>

text \<open>
  The Prometheus client library is the registry collaborator. An instrument vector is
  modelled by its description (fully qualified name, help, label names, and the
  buckets of a histogram) and by the operations it received, oldest first: the label
  values of every \<^verbatim>\<open>Inc\<close>, the label values and the value of every \<^verbatim>\<open>Observe\<close>.
  A counter's value for a label tuple is the number of its increments. Observed values
  are \<^verbatim>\<open>float64\<close> in Go: real numbers here, rounded where the code converts an integer.
  The library refuses histogram buckets that are not strictly increasing, which the
  configuration is required to be; recording into such a histogram is not modelled.
\<close>

record CounterOpts =
  cName :: string
  cHelp :: string
  cSubsystem :: string

record HistogramOpts =
  hName :: string
  hHelp :: string
  hBuckets :: "real list"
  hSubsystem :: string

record CounterVec =
  cvName :: string
  cvHelp :: string
  cvLabels :: "string list"
  cvIncs :: "string list list"

record HistogramVec =
  hvName :: string
  hvHelp :: string
  hvLabels :: "string list"
  hvBuckets :: "real list"
  hvObserved :: "(string list \<times> real) list"

text \<open>\<^verbatim>\<open>prometheus.BuildFQName\<close> with an empty namespace.\<close>

definition BuildFQName :: "string \<Rightarrow> string \<Rightarrow> string" where
  "BuildFQName subsystem name =
     (if name = [] then []
      else if subsystem \<noteq> [] then subsystem @ ''_'' @ name
      else name)"

definition NewCounterVec :: "CounterOpts \<Rightarrow> string list \<Rightarrow> CounterVec" where
  "NewCounterVec opts labelNames =
     \<lparr>cvName = BuildFQName (cSubsystem opts) (cName opts), cvHelp = cHelp opts,
      cvLabels = labelNames, cvIncs = []\<rparr>"

definition NewHistogramVec :: "HistogramOpts \<Rightarrow> string list \<Rightarrow> HistogramVec" where
  "NewHistogramVec opts labelNames =
     \<lparr>hvName = BuildFQName (hSubsystem opts) (hName opts), hvHelp = hHelp opts,
      hvLabels = labelNames, hvBuckets = hBuckets opts, hvObserved = []\<rparr>"

definition Inc :: "string list \<Rightarrow> CounterVec \<Rightarrow> CounterVec" where
  "Inc lvs c = c\<lparr>cvIncs := cvIncs c @ [lvs]\<rparr>"

definition Observe :: "string list \<Rightarrow> real \<Rightarrow> HistogramVec \<Rightarrow> HistogramVec" where
  "Observe lvs v h = h\<lparr>hvObserved := hvObserved h @ [(lvs, v)]\<rparr>"

definition counterValue :: "CounterVec \<Rightarrow> string list \<Rightarrow> nat" where
  "counterValue c lvs = length (filter (\<lambda>x. x = lvs) (cvIncs c))"

text \<open>
  The process-wide state the constructor works on: the names registered with the
  default registry, and the lines written by \<^verbatim>\<open>log.Println\<close>.
  \<^verbatim>\<open>prometheus.Register\<close> returns an error, and registers nothing, when the name is
  taken; it never panics. The constructor treats every error of \<^verbatim>\<open>Register\<close> alike.
\<close>

datatype reg_error = AlreadyRegisteredError string

record process =
  registry :: "string list"
  logged :: "(string \<times> reg_error) list"

definition Register :: "string \<Rightarrow> process \<Rightarrow> reg_error option \<times> process" where
  "Register name ps =
     (if name \<in> set (registry ps) then (Some (AlreadyRegisteredError name), ps)
      else (None, ps\<lparr>registry := registry ps @ [name]\<rparr>))"

definition Println :: "string \<Rightarrow> reg_error \<Rightarrow> process \<Rightarrow> process" where
  "Println msg e ps = ps\<lparr>logged := logged ps @ [(msg, e)]\<rparr>"

section \<open>The middleware\<close>

definition dflBuckets :: "real list" where
  "dflBuckets = [0.3, 1.0, 2.5, 5.0]"

definition requestName :: string where
  "requestName = ''http_requests_total''"

definition latencyName :: string where
  "latencyName = ''http_request_duration_seconds''"

definition responseSizeName :: string where
  "responseSizeName = ''response_size_bytes''"

definition requestSizeName :: string where
  "requestSizeName = ''request_size_bytes''"

record Opts =
  Buckets :: "real list"
  Subsystem :: string

record PrometheusMiddleware =
  request :: CounterVec
  latency :: HistogramVec
  reqSize :: HistogramVec
  resSize :: HistogramVec

text \<open>
  \<^verbatim>\<open>if err := prometheus.Register(c); err != nil { log.Println(msg, err) }\<close>
\<close>

definition register_or_log :: "string \<Rightarrow> string \<Rightarrow> process \<Rightarrow> process" where
  "register_or_log name msg ps =
     (case Register name ps of
        (Some e, ps') \<Rightarrow> Println msg e ps'
      | (None, ps') \<Rightarrow> ps')"

definition labelNames :: "string list" where
  "labelNames = [''code'', ''method'', ''path'']"

definition NewPrometheusMiddleware :: "Opts \<Rightarrow> process \<Rightarrow> PrometheusMiddleware \<times> process" where
  "NewPrometheusMiddleware opts ps0 =
     (let counterOpts = \<lparr>cName = requestName,
            cHelp = ''How many HTTP requests processed, partitioned by status code, method and HTTP path.'',
            cSubsystem = Subsystem opts\<rparr>;
          request' = NewCounterVec counterOpts labelNames;
          ps1 = register_or_log (cvName request') ''prometheusMiddleware.request was not registered:'' ps0;
          buckets = (if length (Buckets opts) = 0 then dflBuckets else Buckets opts);
          histogramOpts = \<lparr>hName = latencyName,
            hHelp = ''How long it took to process the request, partitioned by status code, method and HTTP path.'',
            hBuckets = buckets, hSubsystem = Subsystem opts\<rparr>;
          latency' = NewHistogramVec histogramOpts labelNames;
          ps2 = register_or_log (hvName latency') ''prometheusMiddleware.latency was not registered:'' ps1;
          reqSizeOpts = \<lparr>hName = requestSizeName,
            hHelp = ''How large was the request, partitioned by status code, method and HTTP path.'',
            hBuckets = buckets, hSubsystem = []\<rparr>;
          reqSize' = NewHistogramVec reqSizeOpts labelNames;
          ps3 = register_or_log (hvName reqSize') ''prometheusMiddleware.reqSize was not registered:'' ps2;
          resSizeOpts = \<lparr>hName = responseSizeName,
            hHelp = ''How large was the response, partitioned by status code, method and HTTP path.'',
            hBuckets = buckets, hSubsystem = []\<rparr>;
          resSize' = NewHistogramVec resSizeOpts labelNames;
          ps4 = register_or_log (hvName resSize') ''prometheusMiddleware.resSize was not registered:'' ps3
      in (\<lparr>request = request', latency = latency', reqSize = reqSize', resSize = resSize'\<rparr>, ps4))"

text \<open>
  \<^verbatim>\<open>float64(x)\<close> of a 64-bit integer is the nearest number with 53 significant bits,
  the even one of two that are equally near: an integer up to \<open>2\<^sup>5\<^sup>3\<close> in absolute
  value is kept, a larger one is rounded to a multiple of \<open>2\<^sup>e\<close>, where \<open>e\<close> is the
  number of bits it has beyond 53. \<open>seconds\<close> is
  \<^verbatim>\<open>float64(d) / float64(time.Second)\<close> for a duration in nanoseconds; the quotient is
  kept as it is, without the rounding of the division, and no property below depends on
  its value.
\<close>

fun bitlen :: "int \<Rightarrow> nat" where
  "bitlen k = (if k \<le> 0 then 0 else Suc (bitlen (k div 2)))"

declare bitlen.simps [simp del]

definition nearest_float64 :: "int \<Rightarrow> int" where
  "nearest_float64 k =
     (let a = \<bar>k\<bar>
      in if a \<le> 2 ^ 53 then k
         else (let e = bitlen a - 53;
                   q = a div 2 ^ e;
                   rest = a mod 2 ^ e;
                   half = 2 ^ (e - 1);
                   q' = (if half < rest \<or> (rest = half \<and> odd q) then q + 1 else q)
               in sgn k * (q' * 2 ^ e)))"

definition float64 :: "64 word \<Rightarrow> real" where
  "float64 x = real_of_int (nearest_float64 (sint x))"

definition seconds :: "int64 \<Rightarrow> real" where
  "seconds d = float64 d / 1000000000"

text \<open>
  \<^verbatim>\<open>InstrumentHandlerDuration(next)\<close>, applied to a sink \<open>w\<close> in state \<open>s\<close> and a
  request \<open>r\<close>. \<open>elapsed\<close> is what \<^verbatim>\<open>time.Since(begin)\<close> returns, in nanoseconds. The
  result holds the calls the inner handler made, the caller's sink afterwards, and
  either the panic that ended the call or the middleware with its instruments updated.
  The inner handler reads the request and leaves it as it is: the route, the method and
  the size are read after the handler has returned, from the request the wrapper was
  given.
\<close>

record 's served =
  calls :: "event list"
  sink :: 's
  outcome :: "panic + PrometheusMiddleware"

definition InstrumentHandlerDuration ::
  "PrometheusMiddleware \<Rightarrow> (http_Request \<Rightarrow> handler) \<Rightarrow> int64
     \<Rightarrow> 's http_ResponseWriter \<Rightarrow> 's \<Rightarrow> http_Request \<Rightarrow> 's served" where
  "InstrumentHandlerDuration p next elapsed w s r =
     (let delegate = \<lparr>ResponseWriter = s, status = 0, written = 0, wroteHeader = False\<rparr>;
          (tr, delegate') = ServeHTTP (delegator w) (next r) delegate;
          rt = CurrentRoute r
      in case GetPathTemplate rt of
           Inl pn \<Rightarrow> \<lparr>calls = tr, sink = ResponseWriter delegate', outcome = Inl pn\<rparr>
         | Inr (path, _) \<Rightarrow>
             (let code = sanitizeCode (status delegate');
                  method = sanitizeMethod (Method r);
                  p1 = p\<lparr>request := Inc [code, method, path] (request p)\<rparr>;
                  p2 = p1\<lparr>latency := Observe [code, method, path] (seconds elapsed) (latency p1)\<rparr>;
                  p3 = p2\<lparr>reqSize := Observe [code, method, path]
                         (float64 (computeApproximateRequestSize r)) (reqSize p2)\<rparr>;
                  p4 = p3\<lparr>resSize := Observe [code, method, path]
                         (float64 (written delegate')) (resSize p3)\<rparr>
              in \<lparr>calls = tr, sink = ResponseWriter delegate', outcome = Inr p4\<rparr>))"

section \<open>Notions used to state the properties\<close>

subsection \<open>Reading a decimal string\<close>

text \<open>
  The integer that a string of an optional minus sign and decimal digits denotes: the
  inverse of \<^const>\<open>Itoa\<close>.
\<close>

definition digits_value :: "string \<Rightarrow> nat" where
  "digits_value ds = foldl (\<lambda>a c. 10 * a + (of_char c - 48)) 0 ds"

definition read_decimal :: "string \<Rightarrow> int" where
  "read_decimal s =
     (case s of
        [] \<Rightarrow> 0
      | c # ds \<Rightarrow> if c = CHR ''-'' then - int (digits_value ds) else int (digits_value s))"

subsection \<open>What a run of the inner handler did\<close>

text \<open>
  The status codes of the handler's explicit \<^verbatim>\<open>WriteHeader\<close> calls, in order, and the
  byte counts \<open>n\<close> its \<^verbatim>\<open>Write\<close> calls got back from the sink, in order.
\<close>

fun header_codes :: "event list \<Rightarrow> int list" where
  "header_codes [] = []"
| "header_codes (EvWriteHeader c # tr) = c # header_codes tr"
| "header_codes (e # tr) = header_codes tr"

fun write_counts :: "event list \<Rightarrow> go_int list" where
  "write_counts [] = []"
| "write_counts (EvWrite b res # tr) = fst res # write_counts tr"
| "write_counts (e # tr) = write_counts tr"

definition bytes_written :: "event list \<Rightarrow> int" where
  "bytes_written tr = sum_list (map sint (write_counts tr))"

text \<open>The calls that reach a sink, and their effect on it.\<close>

datatype sink_call =
    DoWriteHeader int
  | DoWrite string
  | DoHeaderSet string string
  | DoFlush

fun deliver :: "'s http_ResponseWriter \<Rightarrow> sink_call list \<Rightarrow> 's \<Rightarrow> 's" where
  "deliver w [] s = s"
| "deliver w (DoWriteHeader c # cs) s = deliver w cs (rwWriteHeader w c s)"
| "deliver w (DoWrite b # cs) s = deliver w cs (snd (rwWrite w b s))"
| "deliver w (DoHeaderSet name v # cs) s = deliver w cs (rwHeaderSet w name v s)"
| "deliver w (DoFlush # cs) s =
     deliver w cs (case rwFlusher w of None \<Rightarrow> s | Some flush \<Rightarrow> flush s)"

text \<open>What the sink returns for the writes among these calls, in order.\<close>

fun replies :: "'s http_ResponseWriter \<Rightarrow> sink_call list \<Rightarrow> 's \<Rightarrow> write_result list" where
  "replies w [] s = []"
| "replies w (DoWriteHeader c # cs) s = replies w cs (rwWriteHeader w c s)"
| "replies w (DoWrite b # cs) s = fst (rwWrite w b s) # replies w cs (snd (rwWrite w b s))"
| "replies w (DoHeaderSet name v # cs) s = replies w cs (rwHeaderSet w name v s)"
| "replies w (DoFlush # cs) s =
     replies w cs (case rwFlusher w of None \<Rightarrow> s | Some flush \<Rightarrow> flush s)"

text \<open>
  The handler's own calls, as sink calls (a type assertion calls nothing); and what
  the delegator passes on of them: the same sequence with one \<^verbatim>\<open>WriteHeader(200)\<close> put
  in front of a write that no \<^verbatim>\<open>WriteHeader\<close> call came before (\<open>wh\<close> tells whether
  one did), and without the flushes, which the delegator has no method for.
\<close>

fun own_calls :: "event list \<Rightarrow> sink_call list" where
  "own_calls [] = []"
| "own_calls (EvWriteHeader c # tr) = DoWriteHeader c # own_calls tr"
| "own_calls (EvWrite b res # tr) = DoWrite b # own_calls tr"
| "own_calls (EvHeaderSet name v # tr) = DoHeaderSet name v # own_calls tr"
| "own_calls (EvAssertFlusher ok # tr) = own_calls tr"
| "own_calls (EvFlush # tr) = DoFlush # own_calls tr"

fun forwarded :: "bool \<Rightarrow> event list \<Rightarrow> sink_call list" where
  "forwarded wh [] = []"
| "forwarded wh (EvWriteHeader c # tr) = DoWriteHeader c # forwarded True tr"
| "forwarded wh (EvWrite b res # tr) =
     (if wh then DoWrite b # forwarded True tr
      else DoWriteHeader StatusOK # DoWrite b # forwarded True tr)"
| "forwarded wh (EvHeaderSet name v # tr) = DoHeaderSet name v # forwarded wh tr"
| "forwarded wh (EvAssertFlusher ok # tr) = forwarded wh tr"
| "forwarded wh (EvFlush # tr) = forwarded wh tr"

text \<open>
  Whether the handler asked its sink for \<^verbatim>\<open>http.Flusher\<close>, or flushed; and the
  \<^verbatim>\<open>(n, err)\<close> its writes got back.
\<close>

fun asks_flusher :: "event list \<Rightarrow> bool" where
  "asks_flusher [] = False"
| "asks_flusher (EvAssertFlusher ok # tr) = True"
| "asks_flusher (EvFlush # tr) = True"
| "asks_flusher (e # tr) = asks_flusher tr"

fun write_results :: "event list \<Rightarrow> write_result list" where
  "write_results [] = []"
| "write_results (EvWrite b res # tr) = res # write_results tr"
| "write_results (e # tr) = write_results tr"

text \<open>
  The contract of \<^verbatim>\<open>http.ResponseWriter\<close> that matters to the delegator: a write
  behaves as if \<^verbatim>\<open>WriteHeader(http.StatusOK)\<close> had been called just before it. The
  sinks of \<^verbatim>\<open>net/http\<close> do so: \<^verbatim>\<open>Write\<close> calls \<^verbatim>\<open>WriteHeader(http.StatusOK)\<close>
  itself when the header is not written yet, and a \<^verbatim>\<open>WriteHeader\<close> after the header
  is written changes nothing of the response.
\<close>

definition follows_http :: "'s http_ResponseWriter \<Rightarrow> bool" where
  "follows_http w = (\<forall>b s. rwWrite w b (rwWriteHeader w StatusOK s) = rwWrite w b s)"

text \<open>The delegator as \<^verbatim>\<open>InstrumentHandlerDuration\<close> creates it.\<close>

definition fresh :: "'s \<Rightarrow> 's responseWriterDelegator" where
  "fresh s = \<lparr>ResponseWriter = s, status = 0, written = 0, wroteHeader = False\<rparr>"

subsection \<open>What a request records\<close>

definition pathTemplateOrEmpty :: "mux_Route \<Rightarrow> string" where
  "pathTemplateOrEmpty rt =
     (case err rt of Some e \<Rightarrow> [] | None \<Rightarrow> (case template rt of None \<Rightarrow> [] | Some t \<Rightarrow> t))"

definition record_request ::
  "string list \<Rightarrow> real \<Rightarrow> real \<Rightarrow> real \<Rightarrow> PrometheusMiddleware \<Rightarrow> PrometheusMiddleware" where
  "record_request lvs secs reqBytes resBytes p =
     \<lparr>request = Inc lvs (request p), latency = Observe lvs secs (latency p),
      reqSize = Observe lvs reqBytes (reqSize p), resSize = Observe lvs resBytes (resSize p)\<rparr>"

text \<open>
  The operations a call added to the instruments, for closed statements: the label
  tuples counted, and the observations of the two size histograms. After a panic they
  are empty.
\<close>

definition counted :: "'s served \<Rightarrow> string list list" where
  "counted res = (case outcome res of Inl pn \<Rightarrow> [] | Inr p \<Rightarrow> cvIncs (request p))"

definition request_sizes :: "'s served \<Rightarrow> (string list \<times> real) list" where
  "request_sizes res = (case outcome res of Inl pn \<Rightarrow> [] | Inr p \<Rightarrow> hvObserved (reqSize p))"

definition response_sizes :: "'s served \<Rightarrow> (string list \<times> real) list" where
  "response_sizes res = (case outcome res of Inl pn \<Rightarrow> [] | Inr p \<Rightarrow> hvObserved (resSize p))"

definition latencies :: "'s served \<Rightarrow> (string list \<times> real) list" where
  "latencies res = (case outcome res of Inl pn \<Rightarrow> [] | Inr p \<Rightarrow> hvObserved (latency p))"

subsection \<open>The size of a request, as a sum of integers\<close>

definition header_bytes :: "(string \<times> string list) list \<Rightarrow> int" where
  "header_bytes hs =
     sum_list (map (\<lambda>(name, vals). int (length name) + sum_list (map (\<lambda>v. int (length v)) vals)) hs)"

definition fixed_request_size :: "http_Request \<Rightarrow> int" where
  "fixed_request_size r =
     (case URL r of None \<Rightarrow> 0 | Some u \<Rightarrow> int (length (Path u)))
       + int (length (Method r)) + int (length (Proto r)) + header_bytes (Header r)
       + int (length (Host r))"

text \<open>The content length counts whenever it is not \<open>-1\<close>: the test the code makes.\<close>

definition approximate_request_size :: "http_Request \<Rightarrow> int" where
  "approximate_request_size r =
     fixed_request_size r + (if ContentLength r \<noteq> - 1 then sint (ContentLength r) else 0)"

text \<open>
  The specification's wording: the content length counts exactly when it is known and
  not negative.
\<close>

definition claimed_request_size :: "http_Request \<Rightarrow> int" where
  "claimed_request_size r =
     fixed_request_size r + (if 0 \<le> sint (ContentLength r) then sint (ContentLength r) else 0)"

subsection \<open>Sinks, requests and handlers to run the middleware on\<close>

text \<open>
  A sink that behaves as the server's own: the first status wins, a write without a
  status sends 200 first, every write takes all its bytes, and headers set after the
  status went out are not sent.
\<close>

record response =
  sent :: "int option"
  head :: "(string \<times> string) list"
  body :: string

definition plainSink :: "response http_ResponseWriter" where
  "plainSink =
     \<lparr>rwWriteHeader = (\<lambda>code s. if sent s = None then s\<lparr>sent := Some code\<rparr> else s),
      rwWrite = (\<lambda>b s. ((len b, None),
                   (if sent s = None then s\<lparr>sent := Some StatusOK\<rparr> else s)\<lparr>body := body s @ b\<rparr>)),
      rwHeaderSet = (\<lambda>name v s. if sent s = None then s\<lparr>head := head s @ [(name, v)]\<rparr> else s),
      rwFlusher = None\<rparr>"

definition noResponse :: response where
  "noResponse = \<lparr>sent = None, head = [], body = []\<rparr>"

text \<open>
  The same sink with a \<^verbatim>\<open>Flush\<close> method, as the server's own has: a flush sends the
  status 200 when none is sent yet; the state counts the flushes.
\<close>

definition flushingSink :: "(response \<times> nat) http_ResponseWriter" where
  "flushingSink =
     \<lparr>rwWriteHeader = (\<lambda>code (s, n). (rwWriteHeader plainSink code s, n)),
      rwWrite = (\<lambda>b (s, n). (fst (rwWrite plainSink b s), (snd (rwWrite plainSink b s), n))),
      rwHeaderSet = (\<lambda>name v (s, n). (rwHeaderSet plainSink name v s, n)),
      rwFlusher = Some (\<lambda>(s, n). (if sent s = None then s\<lparr>sent := Some StatusOK\<rparr> else s, Suc n))\<rparr>"

text \<open>A sink that takes at most 8 bytes of a write, and says so.\<close>

definition shortSink :: "response http_ResponseWriter" where
  "shortSink =
     plainSink\<lparr>rwWrite := (\<lambda>b s.
        ((len (take 8 b), if 8 < length b then Some ''short write'' else None),
         (if sent s = None then s\<lparr>sent := Some StatusOK\<rparr> else s)\<lparr>body := body s @ take 8 b\<rparr>))\<rparr>"

text \<open>A sink that keeps the list of the calls it received, as a test double does.\<close>

definition recordingSink :: "(sink_call list) http_ResponseWriter" where
  "recordingSink =
     \<lparr>rwWriteHeader = (\<lambda>code s. s @ [DoWriteHeader code]),
      rwWrite = (\<lambda>b s. ((len b, None), s @ [DoWrite b])),
      rwHeaderSet = (\<lambda>name v s. s @ [DoHeaderSet name v]),
      rwFlusher = None\<rparr>"

definition metricsRoute :: mux_Route where
  "metricsRoute = \<lparr>err = None, template = Some ''/metrics''\<rparr>"

definition usersRoute :: mux_Route where
  "usersRoute = \<lparr>err = None, template = Some ''/users/{id}''\<rparr>"

definition hostOnlyRoute :: mux_Route where
  "hostOnlyRoute = \<lparr>err = None, template = None\<rparr>"

definition getMetrics :: http_Request where
  "getMetrics =
     \<lparr>Method = ''GET'', URL = Some \<lparr>Path = ''/metrics''\<rparr>, Proto = ''HTTP/1.1'',
      Header = [(''Accept'', [''*/*'']), (''User-Agent'', [''curl''])],
      ContentLength = - 1, Host = ''localhost'', route = Some metricsRoute\<rparr>"

definition getUser :: http_Request where
  "getUser = getMetrics\<lparr>URL := Some \<lparr>Path = ''/users/42''\<rparr>, route := Some usersRoute\<rparr>"

definition negativeLengthRequest :: http_Request where
  "negativeLengthRequest = getMetrics\<lparr>ContentLength := - 2\<rparr>"

definition hugeLengthRequest :: http_Request where
  "hugeLengthRequest = getMetrics\<lparr>ContentLength := 9223372036854775807\<rparr>"

definition postRequest :: http_Request where
  "postRequest = getMetrics\<lparr>Method := ''POST'', ContentLength := 120\<rparr>"

definition nilURLRequest :: http_Request where
  "nilURLRequest = getMetrics\<lparr>URL := None\<rparr>"

definition hostOnlyRequest :: http_Request where
  "hostOnlyRequest = getMetrics\<lparr>route := Some hostOnlyRoute\<rparr>"

definition noRouteRequest :: http_Request where
  "noRouteRequest = getMetrics\<lparr>route := None\<rparr>"

definition roundedLengthRequest :: http_Request where
  "roundedLengthRequest = getMetrics\<lparr>ContentLength := 9007199254740994\<rparr>"

definition okHandler :: handler where
  "okHandler = CallWriteHeader StatusOK (CallWrite ''ok'' (\<lambda>res. Return))"

definition bodyOnlyHandler :: handler where
  "bodyOnlyHandler = CallWrite ''ok'' (\<lambda>res. Return)"

definition silentHandler :: handler where
  "silentHandler = Return"

definition twoStatusHandler :: handler where
  "twoStatusHandler = CallWriteHeader 404 (CallWriteHeader 500 Return)"

definition retryHandler :: handler where
  "retryHandler = CallWriteHeader 503 (CallWriteHeader 200 (CallWrite ''ok'' (\<lambda>res. Return)))"

text \<open>A handler that streams when it can flush, and answers 500 when it cannot.\<close>

definition streamingHandler :: handler where
  "streamingHandler =
     AssertFlusher (\<lambda>ok.
       if ok then CallWrite ''data'' (\<lambda>res. CallFlush Return)
       else CallWriteHeader 500 (CallWrite ''Streaming unsupported'' (\<lambda>res. Return)))"

definition threeWritesHandler :: handler where
  "threeWritesHandler =
     CallWrite ''0123456789'' (\<lambda>r1.
       CallWrite ''01234567890123456789'' (\<lambda>r2.
         CallWrite ''01234'' (\<lambda>r3. Return)))"

definition emptyProcess :: process where
  "emptyProcess = \<lparr>registry = [], logged = []\<rparr>"

definition takenProcess :: process where
  "takenProcess = \<lparr>registry = [''http_requests_total''], logged = []\<rparr>"

definition defaultOpts :: Opts where
  "defaultOpts = \<lparr>Buckets = [], Subsystem = []\<rparr>"

definition sminemOpts :: Opts where
  "sminemOpts = \<lparr>Buckets = [], Subsystem = ''sminem''\<rparr>"

definition firstMiddleware :: PrometheusMiddleware where
  "firstMiddleware = fst (NewPrometheusMiddleware defaultOpts emptyProcess)"

section \<open>Properties of the helpers\<close>

lemma sanitizeCode_0: "sanitizeCode 0 = ''0''"
  by code_simp
lemma sanitizeCode_200: "sanitizeCode 200 = ''200''"
  by code_simp
lemma sanitizeCode_404: "sanitizeCode 404 = ''404''"
  by code_simp
lemma sanitizeCode_500: "sanitizeCode 500 = ''500''"
  by code_simp
lemma sanitizeMethod_GET: "sanitizeMethod ''GET'' = ''get''"
  by code_simp

lemma of_char_digit_char: "d < 10 \<Longrightarrow> of_char (digit_char d) = 48 + d"
  by (simp add: digit_char_def)

lemma digits_value_snoc: "digits_value (ds @ [c]) = 10 * digits_value ds + (of_char c - 48)"
  by (simp add: digits_value_def)

lemma digits_value_decimal: "digits_value (decimal n) = n"
proof (induction n rule: decimal.induct)
  case (1 n)
  show ?case
  proof (cases "n < 10")
    case True
    then show ?thesis
      by (subst decimal.simps) (simp add: digits_value_def of_char_digit_char)
  next
    case False
    then have "digits_value (decimal (n div 10)) = n div 10"
      using "1.IH" by simp
    then show ?thesis
      using False
      by (subst decimal.simps) (simp add: digits_value_snoc of_char_digit_char)
  qed
qed

lemma decimal_no_minus: "CHR ''-'' \<notin> set (decimal n)"
proof (induction n rule: decimal.induct)
  case (1 n)
  have digit: "\<And>d. d < 10 \<Longrightarrow> digit_char d \<noteq> CHR ''-''"
  proof
    fix d :: nat
    assume "d < 10" and "digit_char d = CHR ''-''"
    then have "of_char (digit_char d) = (of_char (CHR ''-'') :: nat)" by simp
    with \<open>d < 10\<close> show False by (simp add: of_char_digit_char)
  qed
  show ?case
  proof (cases "n < 10")
    case True
    then show ?thesis
      using digit [of n] by (subst decimal.simps) auto
  next
    case False
    then show ?thesis
      using "1.IH" digit [of "n mod 10"] by (subst decimal.simps) auto
  qed
qed

lemma decimal_not_Nil: "decimal n \<noteq> []"
  by (subst decimal.simps) simp

lemma read_decimal_Itoa: "read_decimal (Itoa i) = i"
proof (cases "i < 0")
  case True
  then show ?thesis
    by (simp add: Itoa_def read_decimal_def digits_value_decimal)
next
  case False
  obtain c ds where cd: "decimal (nat i) = c # ds"
    using decimal_not_Nil [of "nat i"] by (cases "decimal (nat i)") auto
  have "c \<noteq> CHR ''-''"
    using decimal_no_minus [of "nat i"] cd by auto
  then have "read_decimal (decimal (nat i)) = int (digits_value (decimal (nat i)))"
    by (simp add: read_decimal_def cd)
  then show ?thesis
    using False by (simp add: Itoa_def digits_value_decimal)
qed

lemma Itoa_inj: "Itoa i = Itoa j \<Longrightarrow> i = j"
  by (metis read_decimal_Itoa)

lemma len_of_int: "len xs = word_of_int (int (length xs))"
  by (simp add: len_def)

lemma values_loop_sum:
  "values_loop vs s = s + word_of_int (sum_list (map (\<lambda>v. int (length v)) vs))"
  by (induction vs arbitrary: s) (simp_all add: len_of_int)

lemma header_loop_sum: "header_loop hs s = s + word_of_int (header_bytes hs)"
  by (induction hs arbitrary: s) (auto simp: header_bytes_def values_loop_sum len_of_int)

text \<open>
  The order in which the \<^verbatim>\<open>range\<close> loop visits the header map does not matter.
\<close>

lemma header_bytes_perm: "mset hs = mset hs' \<Longrightarrow> header_bytes hs = header_bytes hs'"
proof -
  let ?f = "\<lambda>(name, vals). int (length name) + sum_list (map (\<lambda>v. int (length v)) vals)"
  assume "mset hs = mset hs'"
  then have "mset (map ?f hs) = mset (map ?f hs')" by simp
  then have "sum_mset (mset (map ?f hs)) = sum_mset (mset (map ?f hs'))" by simp
  then show ?thesis unfolding header_bytes_def sum_mset_sum_list .
qed

lemma header_loop_perm: "mset hs = mset hs' \<Longrightarrow> header_loop hs s = header_loop hs' s"
  by (simp add: header_loop_sum header_bytes_perm [of hs hs'])

lemma computeApproximateRequestSize_wraps:
  "computeApproximateRequestSize r = word_of_int (approximate_request_size r)"
  by (simp add: computeApproximateRequestSize_def approximate_request_size_def
      fixed_request_size_def header_loop_sum len_of_int Let_def split: option.splits)

lemma sint_in_range:
  "- (2 ^ 63) \<le> k \<Longrightarrow> k < 2 ^ 63 \<Longrightarrow> sint (word_of_int k :: 64 word) = k"
  by (simp add: signed_of_int signed_take_bit_int_eq_self)

lemma computeApproximateRequestSize_exact:
  "- (2 ^ 63) \<le> approximate_request_size r \<Longrightarrow> approximate_request_size r < 2 ^ 63 \<Longrightarrow>
   sint (computeApproximateRequestSize r) = approximate_request_size r"
  by (simp add: computeApproximateRequestSize_wraps sint_in_range)

lemma value_bytes_nonneg: "0 \<le> sum_list (map (\<lambda>v. int (length v)) vs)"
  by (induction vs) simp_all

lemma header_bytes_nonneg: "0 \<le> header_bytes hs"
proof (induction hs)
  case Nil
  then show ?case by (simp add: header_bytes_def)
next
  case (Cons h hs)
  obtain name vals where h: "h = (name, vals)" by (cases h)
  have "header_bytes (h # hs) =
      int (length name) + sum_list (map (\<lambda>v. int (length v)) vals) + header_bytes hs"
    by (simp add: header_bytes_def h)
  then show ?case
    using Cons.IH value_bytes_nonneg [of vals] by simp
qed

lemma fixed_request_size_nonneg: "0 \<le> fixed_request_size r"
  using header_bytes_nonneg [of "Header r"]
  by (simp add: fixed_request_size_def split: option.splits)

lemma approximate_request_size_lower: "- (2 ^ 63) \<le> approximate_request_size r"
  using fixed_request_size_nonneg [of r] sint_ge [of "ContentLength r"]
  by (simp add: approximate_request_size_def)

section \<open>Properties of the delegator\<close>

lemma serve_status:
  "ServeHTTP (delegator w) h d = (tr, d') \<Longrightarrow>
   status d' = (if header_codes tr \<noteq> [] then last (header_codes tr)
                else if \<not> wroteHeader d \<and> write_counts tr \<noteq> [] then StatusOK else status d)"
proof (induction h arbitrary: d tr d')
  case Return
  then show ?case by simp
next
  case (CallWriteHeader c k)
  then show ?case
    by (auto simp: delegator_def WriteHeader_def split: prod.splits)
next
  case (CallWrite b k)
  show ?case
    using CallWrite.prems CallWrite.IH[OF rangeI]
    by (auto simp: delegator_def WriteHeader_def Write_def Let_def split: prod.splits if_splits)
next
  case (CallHeaderSet n v k)
  then show ?case
    by (auto simp: delegator_def HeaderSet_def split: prod.splits)
next
  case (AssertFlusher k)
  show ?case
    using AssertFlusher.prems AssertFlusher.IH[OF rangeI]
    by (auto simp: delegator_def Let_def split: prod.splits)
next
  case (CallFlush k)
  then show ?case
    by (auto simp: delegator_def split: prod.splits)
qed

lemma serve_written:
  "ServeHTTP (delegator w) h d = (tr, d') \<Longrightarrow>
   written d' = written d + sum_list (write_counts tr)"
proof (induction h arbitrary: d tr d')
  case Return
  then show ?case by simp
next
  case (CallWriteHeader c k)
  then show ?case
    by (auto simp: delegator_def WriteHeader_def split: prod.splits)
next
  case (CallWrite b k)
  show ?case
    using CallWrite.prems CallWrite.IH[OF rangeI]
    by (auto simp: delegator_def WriteHeader_def Write_def Let_def split: prod.splits if_splits)
next
  case (CallHeaderSet n v k)
  then show ?case
    by (auto simp: delegator_def HeaderSet_def split: prod.splits)
next
  case (AssertFlusher k)
  show ?case
    using AssertFlusher.prems AssertFlusher.IH[OF rangeI]
    by (auto simp: delegator_def Let_def split: prod.splits)
next
  case (CallFlush k)
  then show ?case
    by (auto simp: delegator_def split: prod.splits)
qed

text \<open>
  On a sink that follows the contract, a handler that does not ask for
  \<^verbatim>\<open>http.Flusher\<close> runs through the delegator as it runs alone.
\<close>

lemma delegator_methods [simp]:
  "rwWriteHeader (delegator w) = WriteHeader w" "rwWrite (delegator w) = Write w"
  "rwHeaderSet (delegator w) = HeaderSet w" "rwFlusher (delegator w) = None"
  by (simp_all add: delegator_def)

lemma Write_on_http_sink:
  "follows_http w \<Longrightarrow>
   rwWrite w b (ResponseWriter d) = (fst (Write w b d), ResponseWriter (snd (Write w b d)))"
  by (simp add: follows_http_def Write_def WriteHeader_def Let_def split_beta)

lemma serve_transparent:
  "follows_http w \<Longrightarrow> \<not> asks_flusher (fst (ServeHTTP (delegator w) h d)) \<Longrightarrow>
   fst (ServeHTTP (delegator w) h d) = fst (ServeHTTP w h (ResponseWriter d)) \<and>
   ResponseWriter (snd (ServeHTTP (delegator w) h d)) = snd (ServeHTTP w h (ResponseWriter d))"
proof (induction h arbitrary: d)
  case Return
  then show ?case by simp
next
  case (CallWriteHeader c k)
  have "\<not> asks_flusher (fst (ServeHTTP (delegator w) k (WriteHeader w c d)))"
    using CallWriteHeader.prems(2) by (simp add: split_beta)
  from CallWriteHeader.IH [OF CallWriteHeader.prems(1) this]
  show ?case by (simp add: split_beta WriteHeader_def)
next
  case (CallWrite b k)
  let ?r = "Write w b d"
  have step: "rwWrite w b (ResponseWriter d) = (fst ?r, ResponseWriter (snd ?r))"
    using CallWrite.prems(1) by (rule Write_on_http_sink)
  have "\<not> asks_flusher (fst (ServeHTTP (delegator w) (k (fst ?r)) (snd ?r)))"
    using CallWrite.prems(2) by (simp add: split_beta)
  from CallWrite.IH [OF rangeI CallWrite.prems(1) this]
  show ?case using step by (simp add: split_beta)
next
  case (CallHeaderSet n v k)
  have "\<not> asks_flusher (fst (ServeHTTP (delegator w) k (HeaderSet w n v d)))"
    using CallHeaderSet.prems(2) by (simp add: split_beta)
  from CallHeaderSet.IH [OF CallHeaderSet.prems(1) this]
  show ?case by (simp add: split_beta HeaderSet_def)
next
  case (AssertFlusher k)
  then show ?case
    by (simp add: Let_def split_beta)
next
  case (CallFlush k)
  then show ?case
    by (simp add: split_beta)
qed

text \<open>The same on a sink that is no \<^verbatim>\<open>http.Flusher\<close>, whatever the handler asks.\<close>

lemma serve_transparent_no_flusher:
  "follows_http w \<Longrightarrow> rwFlusher w = None \<Longrightarrow>
   fst (ServeHTTP (delegator w) h d) = fst (ServeHTTP w h (ResponseWriter d)) \<and>
   ResponseWriter (snd (ServeHTTP (delegator w) h d)) = snd (ServeHTTP w h (ResponseWriter d))"
proof (induction h arbitrary: d)
  case Return
  then show ?case by simp
next
  case (CallWriteHeader c k)
  then show ?case
    by (simp add: delegator_def WriteHeader_def split_beta)
next
  case (CallWrite b k)
  show ?case
    using CallWrite.prems CallWrite.IH[OF rangeI]
    by (simp add: follows_http_def delegator_def WriteHeader_def Write_def Let_def split_beta)
next
  case (CallHeaderSet n v k)
  then show ?case
    by (simp add: delegator_def HeaderSet_def split_beta)
next
  case (AssertFlusher k)
  show ?case
    using AssertFlusher.prems AssertFlusher.IH[OF rangeI]
    by (simp add: delegator_def Let_def split_beta)
next
  case (CallFlush k)
  then show ?case
    by (simp add: delegator_def split_beta)
qed

text \<open>What the delegator passes on, on any sink; and what a handler passes alone.\<close>

lemma serve_forwarded:
  "ResponseWriter (snd (ServeHTTP (delegator w) h d)) =
     deliver w (forwarded (wroteHeader d) (fst (ServeHTTP (delegator w) h d))) (ResponseWriter d)"
proof (induction h arbitrary: d)
  case Return
  then show ?case by simp
next
  case (CallWriteHeader c k)
  then show ?case
    by (simp add: delegator_def WriteHeader_def split_beta)
next
  case (CallWrite b k)
  show ?case
    using CallWrite.IH[OF rangeI]
    by (simp add: delegator_def WriteHeader_def Write_def Let_def split_beta)
next
  case (CallHeaderSet n v k)
  then show ?case
    by (simp add: delegator_def HeaderSet_def split_beta)
next
  case (AssertFlusher k)
  show ?case
    using AssertFlusher.IH[OF rangeI]
    by (simp add: delegator_def Let_def split_beta)
next
  case (CallFlush k)
  then show ?case
    by (simp add: delegator_def split_beta)
qed

text \<open>Every write of the handler gets the \<^verbatim>\<open>(n, err)\<close> that the sink returned for it.\<close>

lemma serve_replies:
  "write_results (fst (ServeHTTP (delegator w) h d)) =
     replies w (forwarded (wroteHeader d) (fst (ServeHTTP (delegator w) h d))) (ResponseWriter d)"
proof (induction h arbitrary: d)
  case Return
  then show ?case by simp
next
  case (CallWriteHeader c k)
  then show ?case
    by (simp add: delegator_def WriteHeader_def split_beta)
next
  case (CallWrite b k)
  show ?case
    using CallWrite.IH[OF rangeI]
    by (simp add: delegator_def WriteHeader_def Write_def Let_def split_beta)
next
  case (CallHeaderSet n v k)
  then show ?case
    by (simp add: delegator_def HeaderSet_def split_beta)
next
  case (AssertFlusher k)
  show ?case
    using AssertFlusher.IH[OF rangeI]
    by (simp add: delegator_def Let_def split_beta)
next
  case (CallFlush k)
  then show ?case
    by (simp add: delegator_def split_beta)
qed

lemma serve_own_calls:
  "snd (ServeHTTP w h s) = deliver w (own_calls (fst (ServeHTTP w h s))) s"
proof (induction h arbitrary: s)
  case Return
  then show ?case by simp
next
  case (CallWriteHeader c k)
  then show ?case by (simp add: split_beta)
next
  case (CallWrite b k)
  show ?case
    using CallWrite.IH[OF rangeI]
    by (simp add: split_beta)
next
  case (CallHeaderSet n v k)
  then show ?case by (simp add: split_beta)
next
  case (AssertFlusher k)
  show ?case
    using AssertFlusher.IH[OF rangeI]
    by (simp add: Let_def split_beta)
next
  case (CallFlush k)
  then show ?case by (simp add: split_beta)
qed

lemma write_counts_results: "write_counts tr = map fst (write_results tr)"
  by (induction tr rule: write_results.induct) simp_all

lemma sum_list_sint: "sum_list ws = (word_of_int (sum_list (map sint ws)) :: 64 word)"
  by (induction ws) simp_all

lemma written_exact:
  assumes "ServeHTTP (delegator w) h (fresh s) = (tr, d')"
    and "- (2 ^ 63) \<le> bytes_written tr" and "bytes_written tr < 2 ^ 63"
  shows "sint (written d') = bytes_written tr"
proof -
  have "written d' = sum_list (write_counts tr)"
    using serve_written [OF assms(1)] by (simp add: fresh_def)
  also have "\<dots> = word_of_int (bytes_written tr)"
    unfolding bytes_written_def by (rule sum_list_sint)
  finally show ?thesis
    using assms(2,3) by (simp add: sint_in_range)
qed

text \<open>Conversion to \<^verbatim>\<open>float64\<close> keeps an integer of at most 53 bits.\<close>

lemma nearest_float64_exact: "\<bar>k\<bar> \<le> 2 ^ 53 \<Longrightarrow> nearest_float64 k = k"
  by (simp add: nearest_float64_def Let_def)

lemma float64_exact:
  "\<bar>k\<bar> \<le> 2 ^ 53 \<Longrightarrow> float64 (word_of_int k) = real_of_int k"
proof -
  assume k: "\<bar>k\<bar> \<le> 2 ^ 53"
  have "(2::int) ^ 53 < 2 ^ 63" by simp
  with k have "- (2 ^ 63) \<le> k" "k < 2 ^ 63" by linarith+
  then have "sint (word_of_int k :: 64 word) = k" by (rule sint_in_range)
  then show ?thesis
    using k by (simp add: float64_def nearest_float64_exact)
qed

section \<open>The wrapped handler, with and without a route\<close>

lemma Instrument_with_route:
  assumes "CurrentRoute r = Some rt"
  shows "InstrumentHandlerDuration p next elapsed w s r =
     (let run = ServeHTTP (delegator w) (next r) (fresh s)
      in \<lparr>calls = fst run, sink = ResponseWriter (snd run),
          outcome = Inr (record_request
            [sanitizeCode (status (snd run)), sanitizeMethod (Method r), pathTemplateOrEmpty rt]
            (seconds elapsed) (float64 (computeApproximateRequestSize r))
            (float64 (written (snd run))) p)\<rparr>)"
  using assms
  by (simp add: InstrumentHandlerDuration_def fresh_def record_request_def Let_def split_beta
      GetPathTemplate_def pathTemplateOrEmpty_def split: option.splits)

lemma Instrument_without_route:
  assumes "CurrentRoute r = None"
  shows "InstrumentHandlerDuration p next elapsed w s r =
     (let run = ServeHTTP (delegator w) (next r) (fresh s)
      in \<lparr>calls = fst run, sink = ResponseWriter (snd run), outcome = Inl NilPointerDereference\<rparr>)"
  using assms
  by (simp add: InstrumentHandlerDuration_def fresh_def Let_def split_beta GetPathTemplate_def)

lemma outcome_with_route:
  assumes "CurrentRoute r = Some rt"
  shows "outcome (InstrumentHandlerDuration p next elapsed w s r) =
     Inr (record_request
       [sanitizeCode (status (snd (ServeHTTP (delegator w) (next r) (fresh s)))),
        sanitizeMethod (Method r), pathTemplateOrEmpty rt]
       (seconds elapsed) (float64 (computeApproximateRequestSize r))
       (float64 (written (snd (ServeHTTP (delegator w) (next r) (fresh s))))) p)"
  by (simp add: Instrument_with_route [OF assms] Let_def)

lemma calls_eq:
  "calls (InstrumentHandlerDuration p next elapsed w s r) =
     fst (ServeHTTP (delegator w) (next r) (fresh s))"
  by (simp add: InstrumentHandlerDuration_def fresh_def Let_def split_beta split: sum.splits)

lemma sink_eq:
  "sink (InstrumentHandlerDuration p next elapsed w s r) =
     ResponseWriter (snd (ServeHTTP (delegator w) (next r) (fresh s)))"
  by (simp add: InstrumentHandlerDuration_def fresh_def Let_def split_beta split: sum.splits)

lemma fresh_fields [simp]:
  "ResponseWriter (fresh s) = s" "status (fresh s) = 0" "written (fresh s) = 0"
  "wroteHeader (fresh s) = False"
  by (simp_all add: fresh_def)

lemma latencies_with_route:
  assumes "CurrentRoute r = Some rt"
  shows "latencies (InstrumentHandlerDuration p next elapsed w s r) =
     hvObserved (latency p) @
       [([sanitizeCode (status (snd (ServeHTTP (delegator w) (next r) (fresh s)))),
          sanitizeMethod (Method r), pathTemplateOrEmpty rt], seconds elapsed)]"
  by (simp add: latencies_def outcome_with_route [OF assms] record_request_def Observe_def)

lemma request_sizes_with_route:
  assumes "CurrentRoute r = Some rt"
  shows "request_sizes (InstrumentHandlerDuration p next elapsed w s r) =
     hvObserved (reqSize p) @
       [([sanitizeCode (status (snd (ServeHTTP (delegator w) (next r) (fresh s)))),
          sanitizeMethod (Method r), pathTemplateOrEmpty rt],
         float64 (computeApproximateRequestSize r))]"
  by (simp add: request_sizes_def outcome_with_route [OF assms] record_request_def Observe_def)

lemma response_sizes_with_route:
  assumes "CurrentRoute r = Some rt"
  shows "response_sizes (InstrumentHandlerDuration p next elapsed w s r) =
     hvObserved (resSize p) @
       [([sanitizeCode (status (snd (ServeHTTP (delegator w) (next r) (fresh s)))),
          sanitizeMethod (Method r), pathTemplateOrEmpty rt],
         float64 (written (snd (ServeHTTP (delegator w) (next r) (fresh s)))))]"
  by (simp add: response_sizes_def outcome_with_route [OF assms] record_request_def Observe_def)

lemma counted_with_route:
  assumes "CurrentRoute r = Some rt"
  shows "counted (InstrumentHandlerDuration p next elapsed w s r) =
     cvIncs (request p) @
       [[sanitizeCode (status (snd (ServeHTTP (delegator w) (next r) (fresh s)))),
         sanitizeMethod (Method r), pathTemplateOrEmpty rt]]"
  by (simp add: counted_def outcome_with_route [OF assms] record_request_def Inc_def)

lemma writes_without_status_count_as_200:
  assumes "CurrentRoute r = Some rt"
    and "header_codes (calls (InstrumentHandlerDuration p next elapsed w s r)) = []"
    and "write_counts (calls (InstrumentHandlerDuration p next elapsed w s r)) \<noteq> []"
  shows "counted (InstrumentHandlerDuration p next elapsed w s r) =
     cvIncs (request p) @ [[''200'', sanitizeMethod (Method r), pathTemplateOrEmpty rt]]"
proof -
  obtain tr d' where run: "ServeHTTP (delegator w) (next r) (fresh s) = (tr, d')"
    by (cases "ServeHTTP (delegator w) (next r) (fresh s)")
  have "status d' = StatusOK"
    using serve_status [OF run] assms(2,3) by (simp add: calls_eq run)
  then show ?thesis
    by (simp add: counted_with_route [OF assms(1)] run StatusOK_def sanitizeCode_200)
qed

lemma counterValue_Inc: "counterValue (Inc lvs c) lvs = counterValue c lvs + 1"
  by (simp add: counterValue_def Inc_def)

section \<open>The constructor\<close>

lemma register_or_log_taken:
  "name \<in> set (registry ps) \<Longrightarrow>
   register_or_log name msg ps = ps\<lparr>logged := logged ps @ [(msg, AlreadyRegisteredError name)]\<rparr>"
  by (simp add: register_or_log_def Register_def Println_def)

lemma register_or_log_free:
  "name \<notin> set (registry ps) \<Longrightarrow>
   register_or_log name msg ps = ps\<lparr>registry := registry ps @ [name]\<rparr>"
  by (simp add: register_or_log_def Register_def)

lemma registry_register_or_log:
  "set (registry (register_or_log name msg ps)) = insert name (set (registry ps))"
  by (cases "name \<in> set (registry ps)") (auto simp: register_or_log_taken register_or_log_free)

lemma logged_register_or_log:
  "set (logged ps) \<subseteq> set (logged (register_or_log name msg ps))"
  by (cases "name \<in> set (registry ps)") (auto simp: register_or_log_taken register_or_log_free)

lemma logged_register_or_log_taken:
  "name \<in> set (registry ps) \<Longrightarrow>
   (msg, AlreadyRegisteredError name) \<in> set (logged (register_or_log name msg ps))"
  by (simp add: register_or_log_taken)

lemma BuildFQName_no_subsystem: "BuildFQName [] name = name"
  by (simp add: BuildFQName_def)

lemma NewPrometheusMiddleware_process:
  "snd (NewPrometheusMiddleware opts ps) =
     register_or_log ''response_size_bytes'' ''prometheusMiddleware.resSize was not registered:''
       (register_or_log ''request_size_bytes'' ''prometheusMiddleware.reqSize was not registered:''
         (register_or_log (BuildFQName (Subsystem opts) ''http_request_duration_seconds'')
            ''prometheusMiddleware.latency was not registered:''
           (register_or_log (BuildFQName (Subsystem opts) ''http_requests_total'')
              ''prometheusMiddleware.request was not registered:'' ps)))"
  by (simp add: NewPrometheusMiddleware_def Let_def NewCounterVec_def NewHistogramVec_def
      requestName_def latencyName_def requestSizeName_def responseSizeName_def
      BuildFQName_no_subsystem)

lemma NewPrometheusMiddleware_instruments:
  "fst (NewPrometheusMiddleware opts ps) =
     \<lparr>request = \<lparr>cvName = BuildFQName (Subsystem opts) ''http_requests_total'',
         cvHelp = ''How many HTTP requests processed, partitioned by status code, method and HTTP path.'',
         cvLabels = [''code'', ''method'', ''path''], cvIncs = []\<rparr>,
      latency = \<lparr>hvName = BuildFQName (Subsystem opts) ''http_request_duration_seconds'',
         hvHelp = ''How long it took to process the request, partitioned by status code, method and HTTP path.'',
         hvLabels = [''code'', ''method'', ''path''],
         hvBuckets = (if Buckets opts = [] then [0.3, 1.0, 2.5, 5.0] else Buckets opts), hvObserved = []\<rparr>,
      reqSize = \<lparr>hvName = ''request_size_bytes'',
         hvHelp = ''How large was the request, partitioned by status code, method and HTTP path.'',
         hvLabels = [''code'', ''method'', ''path''],
         hvBuckets = (if Buckets opts = [] then [0.3, 1.0, 2.5, 5.0] else Buckets opts), hvObserved = []\<rparr>,
      resSize = \<lparr>hvName = ''response_size_bytes'',
         hvHelp = ''How large was the response, partitioned by status code, method and HTTP path.'',
         hvLabels = [''code'', ''method'', ''path''],
         hvBuckets = (if Buckets opts = [] then [0.3, 1.0, 2.5, 5.0] else Buckets opts), hvObserved = []\<rparr>\<rparr>"
  by (simp add: NewPrometheusMiddleware_def Let_def NewCounterVec_def NewHistogramVec_def
      BuildFQName_def requestName_def latencyName_def requestSizeName_def responseSizeName_def
      labelNames_def dflBuckets_def)

section \<open>The middleware on concrete sinks, requests and handlers\<close>

lemma plainSink_follows_http: "follows_http plainSink"
  by (simp add: follows_http_def plainSink_def)

lemma getMetrics_route: "CurrentRoute getMetrics = Some metricsRoute"
  by (simp add: CurrentRoute_def getMetrics_def)

lemma firstMiddleware_eq:
  "firstMiddleware =
     \<lparr>request = \<lparr>cvName = ''http_requests_total'',
         cvHelp = ''How many HTTP requests processed, partitioned by status code, method and HTTP path.'',
         cvLabels = [''code'', ''method'', ''path''], cvIncs = []\<rparr>,
      latency = \<lparr>hvName = ''http_request_duration_seconds'',
         hvHelp = ''How long it took to process the request, partitioned by status code, method and HTTP path.'',
         hvLabels = [''code'', ''method'', ''path''], hvBuckets = [0.3, 1.0, 2.5, 5.0], hvObserved = []\<rparr>,
      reqSize = \<lparr>hvName = ''request_size_bytes'',
         hvHelp = ''How large was the request, partitioned by status code, method and HTTP path.'',
         hvLabels = [''code'', ''method'', ''path''], hvBuckets = [0.3, 1.0, 2.5, 5.0], hvObserved = []\<rparr>,
      resSize = \<lparr>hvName = ''response_size_bytes'',
         hvHelp = ''How large was the response, partitioned by status code, method and HTTP path.'',
         hvLabels = [''code'', ''method'', ''path''], hvBuckets = [0.3, 1.0, 2.5, 5.0], hvObserved = []\<rparr>\<rparr>"
  by (simp add: firstMiddleware_def NewPrometheusMiddleware_def defaultOpts_def emptyProcess_def
      Let_def NewCounterVec_def NewHistogramVec_def BuildFQName_def requestName_def latencyName_def
      requestSizeName_def responseSizeName_def labelNames_def dflBuckets_def)

lemmas run_simps = fresh_def delegator_def Write_def WriteHeader_def HeaderSet_def StatusOK_def
  Let_def len_def

lemma plain_bodyOnly:
  "ServeHTTP plainSink bodyOnlyHandler noResponse =
     ([EvWrite ''ok'' (2, None)], \<lparr>sent = Some 200, head = [], body = ''ok''\<rparr>)"
  by (simp add: bodyOnlyHandler_def plainSink_def noResponse_def run_simps)

lemma recording_bodyOnly:
  "ServeHTTP recordingSink bodyOnlyHandler [] = ([EvWrite ''ok'' (2, None)], [DoWrite ''ok''])"
  by (simp add: bodyOnlyHandler_def recordingSink_def run_simps)

lemma recording_bodyOnly_delegated:
  "ServeHTTP (delegator recordingSink) bodyOnlyHandler (fresh []) =
     ([EvWrite ''ok'' (2, None)],
      \<lparr>ResponseWriter = [DoWriteHeader 200, DoWrite ''ok''], status = 200, written = 2,
       wroteHeader = True\<rparr>)"
  by (simp add: bodyOnlyHandler_def recordingSink_def run_simps)

lemma hostOnlyRequest_route: "CurrentRoute hostOnlyRequest = Some hostOnlyRoute"
  by (simp add: CurrentRoute_def hostOnlyRequest_def getMetrics_def)

lemma Method_hostOnlyRequest: "Method hostOnlyRequest = ''GET''"
  by (simp add: hostOnlyRequest_def getMetrics_def)

lemma getUser_route: "CurrentRoute getUser = Some usersRoute"
  by (simp add: CurrentRoute_def getUser_def getMetrics_def)

lemma Method_getMetrics: "Method getMetrics = ''GET''"
  by (simp add: getMetrics_def)

lemma Method_getUser: "Method getUser = ''GET''"
  by (simp add: getUser_def getMetrics_def)

lemma plain_silent_delegated:
  "ServeHTTP (delegator plainSink) silentHandler (fresh noResponse) = ([], fresh noResponse)"
  by (simp add: silentHandler_def)

lemma plain_bodyOnly_delegated:
  "ServeHTTP (delegator plainSink) bodyOnlyHandler (fresh noResponse) =
     ([EvWrite ''ok'' (2, None)],
      \<lparr>ResponseWriter = \<lparr>sent = Some 200, head = [], body = ''ok''\<rparr>, status = 200, written = 2,
       wroteHeader = True\<rparr>)"
  by (simp add: bodyOnlyHandler_def plainSink_def noResponse_def run_simps)

lemma plain_ok_delegated:
  "ServeHTTP (delegator plainSink) okHandler (fresh noResponse) =
     ([EvWriteHeader 200, EvWrite ''ok'' (2, None)],
      \<lparr>ResponseWriter = \<lparr>sent = Some 200, head = [], body = ''ok''\<rparr>, status = 200, written = 2,
       wroteHeader = True\<rparr>)"
  by (simp add: okHandler_def plainSink_def noResponse_def run_simps)

lemma plain_twoStatus_delegated:
  "ServeHTTP (delegator plainSink) twoStatusHandler (fresh noResponse) =
     ([EvWriteHeader 404, EvWriteHeader 500],
      \<lparr>ResponseWriter = \<lparr>sent = Some 404, head = [], body = []\<rparr>, status = 500, written = 0,
       wroteHeader = True\<rparr>)"
  by (simp add: twoStatusHandler_def plainSink_def noResponse_def run_simps)

lemma plain_threeWrites_delegated:
  "ServeHTTP (delegator plainSink) threeWritesHandler (fresh noResponse) =
     ([EvWrite ''0123456789'' (10, None), EvWrite ''01234567890123456789'' (20, None),
       EvWrite ''01234'' (5, None)],
      \<lparr>ResponseWriter = \<lparr>sent = Some 200, head = [],
         body = ''01234567890123456789012345678901234''\<rparr>, status = 200, written = 35,
       wroteHeader = True\<rparr>)"
  by (simp add: threeWritesHandler_def plainSink_def noResponse_def run_simps)

lemma plain_retry_delegated:
  "ServeHTTP (delegator plainSink) retryHandler (fresh noResponse) =
     ([EvWriteHeader 503, EvWriteHeader 200, EvWrite ''ok'' (2, None)],
      \<lparr>ResponseWriter = \<lparr>sent = Some 503, head = [], body = ''ok''\<rparr>, status = 200, written = 2,
       wroteHeader = True\<rparr>)"
  by (simp add: retryHandler_def plainSink_def noResponse_def run_simps)

lemma fixed_getMetrics: "fixed_request_size getMetrics = 51"
  by (simp add: fixed_request_size_def header_bytes_def getMetrics_def)

lemma postRequest_route: "CurrentRoute postRequest = Some metricsRoute"
  by (simp add: CurrentRoute_def postRequest_def getMetrics_def)

lemma negativeLengthRequest_route: "CurrentRoute negativeLengthRequest = Some metricsRoute"
  by (simp add: CurrentRoute_def negativeLengthRequest_def getMetrics_def)

lemma hugeLengthRequest_route: "CurrentRoute hugeLengthRequest = Some metricsRoute"
  by (simp add: CurrentRoute_def hugeLengthRequest_def getMetrics_def)

lemma approximate_getMetrics: "approximate_request_size getMetrics = 51"
  using fixed_getMetrics by (simp add: approximate_request_size_def getMetrics_def)

lemma approximate_postRequest: "approximate_request_size postRequest = 172"
  by (simp add: approximate_request_size_def fixed_request_size_def header_bytes_def
      postRequest_def getMetrics_def)

lemma process_after_first:
  "snd (NewPrometheusMiddleware defaultOpts emptyProcess) =
     \<lparr>registry = [''http_requests_total'', ''http_request_duration_seconds'',
                  ''request_size_bytes'', ''response_size_bytes''],
      logged = []\<rparr>"
  by (simp add: NewPrometheusMiddleware_process defaultOpts_def emptyProcess_def
      BuildFQName_no_subsystem register_or_log_free)

lemma process_after_taken:
  "snd (NewPrometheusMiddleware defaultOpts takenProcess) =
     \<lparr>registry = [''http_requests_total'', ''http_request_duration_seconds'',
                  ''request_size_bytes'', ''response_size_bytes''],
      logged = [(''prometheusMiddleware.request was not registered:'',
                 AlreadyRegisteredError ''http_requests_total'')]\<rparr>"
  by (simp add: NewPrometheusMiddleware_process defaultOpts_def takenProcess_def
      BuildFQName_no_subsystem register_or_log_free register_or_log_taken)

lemma flushingSink_follows_http: "follows_http flushingSink"
  by (simp add: follows_http_def flushingSink_def plainSink_def split_beta)

lemma noRouteRequest_route: "CurrentRoute noRouteRequest = None"
  by (simp add: CurrentRoute_def noRouteRequest_def)

lemma flushing_bodyOnly:
  "ServeHTTP flushingSink bodyOnlyHandler (noResponse, 0) =
     ([EvWrite ''ok'' (2, None)], (\<lparr>sent = Some 200, head = [], body = ''ok''\<rparr>, 0))"
  by (simp add: bodyOnlyHandler_def flushingSink_def plainSink_def noResponse_def StatusOK_def
      len_def)

lemma flushing_bodyOnly_delegated:
  "ServeHTTP (delegator flushingSink) bodyOnlyHandler (fresh (noResponse, 0)) =
     ([EvWrite ''ok'' (2, None)],
      \<lparr>ResponseWriter = (\<lparr>sent = Some 200, head = [], body = ''ok''\<rparr>, 0), status = 200,
       written = 2, wroteHeader = True\<rparr>)"
  by (simp add: bodyOnlyHandler_def flushingSink_def plainSink_def noResponse_def run_simps)

lemma flushing_streaming:
  "ServeHTTP flushingSink streamingHandler (noResponse, 0) =
     ([EvAssertFlusher True, EvWrite ''data'' (4, None), EvFlush],
      (\<lparr>sent = Some 200, head = [], body = ''data''\<rparr>, 1))"
  by (simp add: streamingHandler_def flushingSink_def plainSink_def noResponse_def StatusOK_def
      len_def)

lemma flushing_streaming_delegated:
  "ServeHTTP (delegator flushingSink) streamingHandler (fresh (noResponse, 0)) =
     ([EvAssertFlusher False, EvWriteHeader 500, EvWrite ''Streaming unsupported'' (21, None)],
      \<lparr>ResponseWriter = (\<lparr>sent = Some 500, head = [], body = ''Streaming unsupported''\<rparr>, 0),
       status = 500, written = 21, wroteHeader = True\<rparr>)"
  by (simp add: streamingHandler_def flushingSink_def plainSink_def noResponse_def run_simps)

lemma short_threeWrites_delegated:
  "ServeHTTP (delegator shortSink) threeWritesHandler (fresh noResponse) =
     ([EvWrite ''0123456789'' (8, Some ''short write''),
       EvWrite ''01234567890123456789'' (8, Some ''short write''),
       EvWrite ''01234'' (5, None)],
      \<lparr>ResponseWriter = \<lparr>sent = Some 200, head = [], body = ''012345670123456701234''\<rparr>,
       status = 200, written = 21, wroteHeader = True\<rparr>)"
  by (simp add: threeWritesHandler_def shortSink_def plainSink_def noResponse_def run_simps)

lemma roundedLengthRequest_route: "CurrentRoute roundedLengthRequest = Some metricsRoute"
  by (simp add: CurrentRoute_def roundedLengthRequest_def getMetrics_def)

lemma nearest_float64_tie: "nearest_float64 9007199254741045 = 9007199254741044"
  by code_simp

lemma nearest_float64_wrapped: "nearest_float64 (- 9223372036854775758) = - 9223372036854775808"
  by code_simp

section \<open>The claims\<close>

subsection \<open>C1: the wrapped handler answers as the inner handler does\<close>

text \<open>
  C1, as stated, says that for every request the response the caller gets (status,
  headers, body and the \<open>(n, err)\<close> of every write) is what the inner handler alone
  produces on the same sink, the wrapper forwarding every call unchanged and adding no
  write. Two things stand against it. Before a write that no \<^verbatim>\<open>WriteHeader\<close> call came
  before, the delegator calls \<^verbatim>\<open>WriteHeader(200)\<close> on the sink itself: a sink that
  tells the two call sequences apart, as one that lists its calls, ends in another state.
  And the delegator has the three methods of \<^verbatim>\<open>http.ResponseWriter\<close> only: a handler
  that streams when its sink is an \<^verbatim>\<open>http.Flusher\<close>, as the server's own sink is, and
  answers 500 otherwise, answers 500 through the wrapper.

  Amended: on any sink, for any handler, what reaches the sink are the handler's own
  \<^verbatim>\<open>WriteHeader\<close>, \<^verbatim>\<open>Write\<close> and header calls, unchanged and in order, with one
  \<^verbatim>\<open>WriteHeader(200)\<close> before the first write when no \<^verbatim>\<open>WriteHeader\<close> call came before
  that write (and no flush, which the handler cannot ask for through the wrapper); every
  write of the handler gets the \<open>(n, err)\<close> the sink returned for it; and for a request
  that carries a route the wrapper returns normally. When the sink treats a write as if
  \<^verbatim>\<open>WriteHeader(200)\<close> had been called just before it (\<^const>\<open>follows_http\<close>, the
  contract of \<^verbatim>\<open>http.ResponseWriter\<close>), and the sink is no \<^verbatim>\<open>http.Flusher\<close> or the
  handler does not ask for one, then the calls the handler makes, the results it gets and
  the sink afterwards are those of the inner handler run alone on that sink.
\<close>

theorem C1_transparent_on_http_sinks:
  "let res = InstrumentHandlerDuration p next elapsed w s r;
       alone = ServeHTTP w (next r) s
   in sink res = deliver w (forwarded False (calls res)) s
      \<and> write_results (calls res) = replies w (forwarded False (calls res)) s
      \<and> snd alone = deliver w (own_calls (fst alone)) s
      \<and> (CurrentRoute r \<noteq> None \<longrightarrow> (\<exists>p'. outcome res = Inr p'))
      \<and> (follows_http w \<and> (rwFlusher w = None \<or> \<not> asks_flusher (calls res)) \<longrightarrow>
           calls res = fst alone \<and> sink res = snd alone)"
proof -
  let ?res = "InstrumentHandlerDuration p next elapsed w s r"
  let ?alone = "ServeHTTP w (next r) s"
  have a: "sink ?res = deliver w (forwarded False (calls ?res)) s"
    using serve_forwarded [of w "next r" "fresh s"] by (simp add: sink_eq calls_eq)
  have b: "write_results (calls ?res) = replies w (forwarded False (calls ?res)) s"
    using serve_replies [of w "next r" "fresh s"] by (simp add: calls_eq)
  have c: "snd ?alone = deliver w (own_calls (fst ?alone)) s"
    by (rule serve_own_calls)
  have d: "CurrentRoute r \<noteq> None \<longrightarrow> (\<exists>p'. outcome ?res = Inr p')"
    by (auto simp: outcome_with_route)
  have e: "follows_http w \<and> (rwFlusher w = None \<or> \<not> asks_flusher (calls ?res)) \<longrightarrow>
      calls ?res = fst ?alone \<and> sink ?res = snd ?alone"
  proof
    assume h: "follows_http w \<and> (rwFlusher w = None \<or> \<not> asks_flusher (calls ?res))"
    then have f: "follows_http w" by blast
    have "fst (ServeHTTP (delegator w) (next r) (fresh s)) = fst ?alone \<and>
        ResponseWriter (snd (ServeHTTP (delegator w) (next r) (fresh s))) = snd ?alone"
    proof (cases "rwFlusher w = None")
      case True
      from serve_transparent_no_flusher [OF f True, of "next r" "fresh s"]
      show ?thesis by simp
    next
      case False
      with h have "\<not> asks_flusher (fst (ServeHTTP (delegator w) (next r) (fresh s)))"
        by (simp add: calls_eq)
      from serve_transparent [OF f this]
      show ?thesis by simp
    qed
    then show "calls ?res = fst ?alone \<and> sink ?res = snd ?alone"
      by (simp add: calls_eq sink_eq)
  qed
  from a b c d e show ?thesis
    unfolding Let_def by blast
qed

theorem C1_witness:
  "follows_http flushingSink
   \<and> \<not> asks_flusher (calls (InstrumentHandlerDuration firstMiddleware (\<lambda>r. bodyOnlyHandler) 1500 flushingSink (noResponse, 0) getMetrics))
   \<and> CurrentRoute getMetrics \<noteq> None
   \<and> calls (InstrumentHandlerDuration firstMiddleware (\<lambda>r. bodyOnlyHandler) 1500 flushingSink (noResponse, 0) getMetrics)
       = [EvWrite ''ok'' (2, None)]
   \<and> forwarded False (calls (InstrumentHandlerDuration firstMiddleware (\<lambda>r. bodyOnlyHandler) 1500 flushingSink (noResponse, 0) getMetrics))
       = [DoWriteHeader 200, DoWrite ''ok'']
   \<and> sink (InstrumentHandlerDuration firstMiddleware (\<lambda>r. bodyOnlyHandler) 1500 flushingSink (noResponse, 0) getMetrics)
       = (\<lparr>sent = Some 200, head = [], body = ''ok''\<rparr>, 0)
   \<and> snd (ServeHTTP flushingSink bodyOnlyHandler (noResponse, 0))
       = (\<lparr>sent = Some 200, head = [], body = ''ok''\<rparr>, 0)
   \<and> outcome (InstrumentHandlerDuration firstMiddleware (\<lambda>r. bodyOnlyHandler) 1500 flushingSink (noResponse, 0) getMetrics)
       \<noteq> Inl NilPointerDereference"
proof -
  have tr: "calls (InstrumentHandlerDuration firstMiddleware (\<lambda>r. bodyOnlyHandler) 1500 flushingSink (noResponse, 0) getMetrics)
       = [EvWrite ''ok'' (2, None)]"
    by (simp add: calls_eq flushing_bodyOnly_delegated)
  have hyp: "follows_http flushingSink \<and> (rwFlusher flushingSink = None \<or>
      \<not> asks_flusher (calls (InstrumentHandlerDuration firstMiddleware (\<lambda>r. bodyOnlyHandler) 1500 flushingSink (noResponse, 0) getMetrics)))"
    by (simp add: flushingSink_follows_http tr)
  have route: "CurrentRoute getMetrics \<noteq> None"
    by (simp add: getMetrics_route)
  from C1_transparent_on_http_sinks [of firstMiddleware "\<lambda>r. bodyOnlyHandler" 1500 flushingSink
      "(noResponse, 0)" getMetrics]
  have "sink (InstrumentHandlerDuration firstMiddleware (\<lambda>r. bodyOnlyHandler) 1500 flushingSink (noResponse, 0) getMetrics)
        = snd (ServeHTTP flushingSink bodyOnlyHandler (noResponse, 0))
      \<and> (\<exists>p'. outcome (InstrumentHandlerDuration firstMiddleware (\<lambda>r. bodyOnlyHandler) 1500 flushingSink (noResponse, 0) getMetrics) = Inr p')"
    unfolding Let_def using hyp route by blast
  then show ?thesis
    using tr by (auto simp: flushingSink_follows_http flushing_bodyOnly getMetrics_route StatusOK_def)
qed

theorem C1_counterexample:
  "sink (InstrumentHandlerDuration firstMiddleware (\<lambda>r. bodyOnlyHandler) 1500 recordingSink [] getMetrics)
     = [DoWriteHeader 200, DoWrite ''ok'']
   \<and> snd (ServeHTTP recordingSink bodyOnlyHandler []) = [DoWrite ''ok'']
   \<and> follows_http flushingSink
   \<and> sink (InstrumentHandlerDuration firstMiddleware (\<lambda>r. streamingHandler) 1500 flushingSink (noResponse, 0) getMetrics)
     = (\<lparr>sent = Some 500, head = [], body = ''Streaming unsupported''\<rparr>, 0)
   \<and> snd (ServeHTTP flushingSink streamingHandler (noResponse, 0))
     = (\<lparr>sent = Some 200, head = [], body = ''data''\<rparr>, 1)"
  by (simp add: sink_eq recording_bodyOnly recording_bodyOnly_delegated flushingSink_follows_http
      flushing_streaming flushing_streaming_delegated)

subsection \<open>C2: the status recorded when the handler sets none\<close>

text \<open>
  C2 says that the code label is \<open>200\<close> whenever the inner handler never calls
  \<^verbatim>\<open>WriteHeader\<close>, also when it writes nothing. The delegator sets its status to 200 in
  \<^verbatim>\<open>Write\<close>, before the first write. A handler that returns without a call leaves the
  status at the zero value of the field: the request is counted under the code \<open>0\<close>,
  while the server sends 200 for it.
\<close>

theorem C2_silent_handler_counted_as_0:
  "counted (InstrumentHandlerDuration firstMiddleware (\<lambda>r. silentHandler) 1500 plainSink noResponse getMetrics)
     = [[''0'', ''get'', ''/metrics'']]
   \<and> sink (InstrumentHandlerDuration firstMiddleware (\<lambda>r. silentHandler) 1500 plainSink noResponse getMetrics)
     = noResponse"
  by (simp add: counted_with_route [OF getMetrics_route] sink_eq plain_silent_delegated
      firstMiddleware_eq Method_getMetrics sanitizeMethod_GET sanitizeCode_0
      pathTemplateOrEmpty_def metricsRoute_def)

subsection \<open>C3: the path label\<close>

text \<open>
  C3 says that the path label of all four instruments is the template of the matched
  route, and that a request with no matched route gets the empty label, with no failure
  or panic. For a request that carries a route, the four instruments get the same path
  label: the route's template, or the empty string when the route has no path template
  or carries an error (the error of \<^verbatim>\<open>GetPathTemplate\<close> is dropped), and the call
  returns normally. A request that carries no route makes \<^verbatim>\<open>mux.CurrentRoute\<close> return
  nil, and \<^verbatim>\<open>GetPathTemplate\<close> on nil panics before anything is recorded.
\<close>

theorem C3_path_label_of_route:
  assumes "CurrentRoute r = Some rt"
  shows "let res = InstrumentHandlerDuration p next elapsed w s r;
             path = (if err rt = None then (case template rt of None \<Rightarrow> [] | Some t \<Rightarrow> t) else [])
         in \<exists>code method.
              (\<exists>p'. outcome res = Inr p')
              \<and> counted res = cvIncs (request p) @ [[code, method, path]]
              \<and> map fst (latencies res) = map fst (hvObserved (latency p)) @ [[code, method, path]]
              \<and> map fst (request_sizes res) = map fst (hvObserved (reqSize p)) @ [[code, method, path]]
              \<and> map fst (response_sizes res) = map fst (hvObserved (resSize p)) @ [[code, method, path]]"
proof -
  have "pathTemplateOrEmpty rt =
      (if err rt = None then (case template rt of None \<Rightarrow> [] | Some t \<Rightarrow> t) else [])"
    by (simp add: pathTemplateOrEmpty_def split: option.splits)
  then show ?thesis
    unfolding Let_def
    by (simp only: counted_with_route [OF assms] latencies_with_route [OF assms]
        request_sizes_with_route [OF assms] response_sizes_with_route [OF assms]
        outcome_with_route [OF assms]) auto
qed

theorem C3_witness:
  "CurrentRoute getUser = Some usersRoute
   \<and> counted (InstrumentHandlerDuration firstMiddleware (\<lambda>r. okHandler) 1500 plainSink noResponse getUser)
       = [[''200'', ''get'', ''/users/{id}'']]
   \<and> map fst (latencies (InstrumentHandlerDuration firstMiddleware (\<lambda>r. okHandler) 1500 plainSink noResponse getUser))
       = [[''200'', ''get'', ''/users/{id}'']]
   \<and> map fst (request_sizes (InstrumentHandlerDuration firstMiddleware (\<lambda>r. okHandler) 1500 plainSink noResponse getUser))
       = [[''200'', ''get'', ''/users/{id}'']]
   \<and> map fst (response_sizes (InstrumentHandlerDuration firstMiddleware (\<lambda>r. okHandler) 1500 plainSink noResponse getUser))
       = [[''200'', ''get'', ''/users/{id}'']]
   \<and> CurrentRoute hostOnlyRequest = Some hostOnlyRoute
   \<and> counted (InstrumentHandlerDuration firstMiddleware (\<lambda>r. okHandler) 1500 plainSink noResponse hostOnlyRequest)
       = [[''200'', ''get'', [] ]]"
  using C3_path_label_of_route [OF getUser_route, of firstMiddleware "\<lambda>r. okHandler" 1500 plainSink noResponse]
    C3_path_label_of_route [OF hostOnlyRequest_route, of firstMiddleware "\<lambda>r. okHandler" 1500 plainSink noResponse]
  by (simp add: Let_def getUser_route hostOnlyRequest_route counted_with_route [OF getUser_route]
      counted_with_route [OF hostOnlyRequest_route] plain_ok_delegated
      firstMiddleware_eq Method_getUser Method_hostOnlyRequest sanitizeMethod_GET sanitizeCode_200
      pathTemplateOrEmpty_def usersRoute_def hostOnlyRoute_def)

theorem C3_counterexample:
  "CurrentRoute (getMetrics\<lparr>route := None\<rparr>) = None
   \<and> outcome (InstrumentHandlerDuration firstMiddleware (\<lambda>r. okHandler) 1500 plainSink noResponse
        (getMetrics\<lparr>route := None\<rparr>)) = Inl NilPointerDereference
   \<and> counted (InstrumentHandlerDuration firstMiddleware (\<lambda>r. okHandler) 1500 plainSink noResponse
        (getMetrics\<lparr>route := None\<rparr>)) = []"
proof -
  have a: "CurrentRoute (getMetrics\<lparr>route := None\<rparr>) = None"
    by (simp add: CurrentRoute_def)
  show ?thesis
    by (simp add: a counted_def Instrument_without_route [OF a] Let_def)
qed

subsection \<open>C4: the four instruments and the subsystem prefix\<close>

text \<open>
  C4 says that the constructor registers four instruments named
  \<open>http_requests_total\<close>, \<open>http_request_duration_seconds\<close>,
  \<open>request_size_bytes\<close> and \<open>response_size_bytes\<close>, labelled by code, method and
  path, and that a non-empty subsystem prefixes all four names. The options of the two
  size histograms are built without the subsystem: with the subsystem \<open>sminem\<close> the
  counter and the latency histogram carry the prefix, the two size histograms do not.
\<close>

theorem C4_subsystem_prefixes_two_of_four:
  "(let m = fst (NewPrometheusMiddleware sminemOpts emptyProcess)
    in [cvName (request m), hvName (latency m), hvName (reqSize m), hvName (resSize m)])
     = [''sminem_http_requests_total'', ''sminem_http_request_duration_seconds'',
        ''request_size_bytes'', ''response_size_bytes'']
   \<and> registry (snd (NewPrometheusMiddleware sminemOpts emptyProcess))
     = [''sminem_http_requests_total'', ''sminem_http_request_duration_seconds'',
        ''request_size_bytes'', ''response_size_bytes'']"
  by (simp add: NewPrometheusMiddleware_def Let_def NewCounterVec_def NewHistogramVec_def
      BuildFQName_def requestName_def latencyName_def requestSizeName_def responseSizeName_def
      labelNames_def dflBuckets_def sminemOpts_def emptyProcess_def register_or_log_def
      Register_def Println_def)

subsection \<open>C5: the status code behind the code label\<close>

text \<open>
  C5 says that the status used for the code label is the one of the first explicit
  \<^verbatim>\<open>WriteHeader\<close> call, later calls changing nothing, and that the label is its
  decimal string. \<^verbatim>\<open>WriteHeader\<close> of the delegator stores its argument on every
  call, so the last call wins (after 404, then 500, the label is \<open>500\<close> and the
  sink has sent 404).

  Amended: when the inner handler calls \<^verbatim>\<open>WriteHeader\<close> at least once, the code
  label of all four instruments is the decimal string of the status passed to the last
  of these calls.
\<close>

theorem C5_last_status_is_the_code_label:
  assumes "CurrentRoute r = Some rt"
    and "header_codes (calls (InstrumentHandlerDuration p next elapsed w s r)) \<noteq> []"
  shows "let res = InstrumentHandlerDuration p next elapsed w s r;
             lvs = [Itoa (last (header_codes (calls res))), sanitizeMethod (Method r),
                    pathTemplateOrEmpty rt]
         in counted res = cvIncs (request p) @ [lvs]
            \<and> map fst (latencies res) = map fst (hvObserved (latency p)) @ [lvs]
            \<and> map fst (request_sizes res) = map fst (hvObserved (reqSize p)) @ [lvs]
            \<and> map fst (response_sizes res) = map fst (hvObserved (resSize p)) @ [lvs]"
proof -
  obtain tr d' where run: "ServeHTTP (delegator w) (next r) (fresh s) = (tr, d')"
    by (cases "ServeHTTP (delegator w) (next r) (fresh s)")
  have "status d' = last (header_codes tr)"
    using serve_status [OF run] assms(2) by (simp add: calls_eq run)
  then show ?thesis
    by (simp add: Let_def counted_with_route [OF assms(1)] latencies_with_route [OF assms(1)]
        request_sizes_with_route [OF assms(1)] response_sizes_with_route [OF assms(1)]
        calls_eq run sanitizeCode_def)
qed

theorem C5_witness:
  "CurrentRoute getMetrics = Some metricsRoute
   \<and> header_codes (calls (InstrumentHandlerDuration firstMiddleware (\<lambda>r. retryHandler) 1500 plainSink noResponse getMetrics))
       = [503, 200]
   \<and> counted (InstrumentHandlerDuration firstMiddleware (\<lambda>r. retryHandler) 1500 plainSink noResponse getMetrics)
       = [[''200'', ''get'', ''/metrics'']]"
  using C5_last_status_is_the_code_label [OF getMetrics_route,
      of firstMiddleware "\<lambda>r. retryHandler" 1500 plainSink noResponse]
  by (simp add: Let_def getMetrics_route calls_eq plain_retry_delegated firstMiddleware_eq
      Method_getMetrics sanitizeMethod_GET sanitizeCode_200 [unfolded sanitizeCode_def]
      pathTemplateOrEmpty_def metricsRoute_def)

theorem C5_counterexample:
  "header_codes (calls (InstrumentHandlerDuration firstMiddleware (\<lambda>r. twoStatusHandler) 1500 plainSink noResponse getMetrics))
       = [404, 500]
   \<and> counted (InstrumentHandlerDuration firstMiddleware (\<lambda>r. twoStatusHandler) 1500 plainSink noResponse getMetrics)
       = [[''500'', ''get'', ''/metrics'']]
   \<and> sent (sink (InstrumentHandlerDuration firstMiddleware (\<lambda>r. twoStatusHandler) 1500 plainSink noResponse getMetrics))
       = Some 404"
  by (simp add: calls_eq sink_eq counted_with_route [OF getMetrics_route] plain_twoStatus_delegated
      firstMiddleware_eq Method_getMetrics sanitizeMethod_GET sanitizeCode_500
      pathTemplateOrEmpty_def metricsRoute_def)

subsection \<open>C6: the size observed for the request\<close>

text \<open>
  C6 says that the value observed into the request-size histogram is the sum of the
  lengths of the URL path, the method, the protocol, all header names and values and the
  host, plus the content length exactly when it is known and not negative. The code adds
  the content length whenever it is not \<open>-1\<close>, it adds in Go's \<^verbatim>\<open>int\<close>, and it
  converts the result to \<^verbatim>\<open>float64\<close>: a content length of \<open>-2\<close> is added (the
  value is 2 less than claimed); with the content length \<open>2\<^sup>5\<^sup>3 + 2\<close> the sum is odd
  and above \<open>2\<^sup>5\<^sup>3\<close>, and the value observed is the even number below it; with the
  largest content length a client can send, \<open>2\<^sup>6\<^sup>3 - 1\<close>, the sum wraps around and
  the value observed is \<open>- 2\<^sup>6\<^sup>3\<close>.

  Amended: for a request that carries a route and that the inner handler leaves as it
  is, the value observed is the sum of these lengths plus the content length whenever
  the content length is not \<open>-1\<close> (\<^const>\<open>approximate_request_size\<close>), taken as a
  64-bit signed integer and converted to \<^verbatim>\<open>float64\<close>; it is that sum itself whenever
  the sum is at most \<open>2\<^sup>5\<^sup>3\<close> in absolute value.
\<close>

theorem C6_request_size_observed:
  assumes "CurrentRoute r = Some rt"
  shows "let res = InstrumentHandlerDuration p next elapsed w s r
         in map snd (request_sizes res) =
              map snd (hvObserved (reqSize p)) @
                [float64 (word_of_int (approximate_request_size r))]
            \<and> (\<bar>approximate_request_size r\<bar> \<le> 2 ^ 53 \<longrightarrow>
                 map snd (request_sizes res) =
                   map snd (hvObserved (reqSize p)) @ [real_of_int (approximate_request_size r)])"
  by (simp add: Let_def request_sizes_with_route [OF assms] computeApproximateRequestSize_wraps
      float64_exact)

theorem C6_witness:
  "CurrentRoute getMetrics = Some metricsRoute
   \<and> \<bar>approximate_request_size getMetrics\<bar> \<le> 2 ^ 53
   \<and> map snd (request_sizes (InstrumentHandlerDuration firstMiddleware (\<lambda>r. okHandler) 1500 plainSink noResponse getMetrics))
       = [51]
   \<and> CurrentRoute postRequest = Some metricsRoute
   \<and> \<bar>approximate_request_size postRequest\<bar> \<le> 2 ^ 53
   \<and> map snd (request_sizes (InstrumentHandlerDuration firstMiddleware (\<lambda>r. okHandler) 1500 plainSink noResponse postRequest))
       = [172]"
proof -
  have a: "\<bar>approximate_request_size getMetrics\<bar> \<le> 2 ^ 53"
    by (simp add: approximate_getMetrics)
  have b: "\<bar>approximate_request_size postRequest\<bar> \<le> 2 ^ 53"
    by (simp add: approximate_postRequest)
  from C6_request_size_observed [OF getMetrics_route, of firstMiddleware "\<lambda>r. okHandler" 1500 plainSink noResponse] a
  have c: "map snd (request_sizes (InstrumentHandlerDuration firstMiddleware (\<lambda>r. okHandler) 1500 plainSink noResponse getMetrics))
      = map snd (hvObserved (reqSize firstMiddleware)) @ [real_of_int (approximate_request_size getMetrics)]"
    unfolding Let_def by blast
  from C6_request_size_observed [OF postRequest_route, of firstMiddleware "\<lambda>r. okHandler" 1500 plainSink noResponse] b
  have d: "map snd (request_sizes (InstrumentHandlerDuration firstMiddleware (\<lambda>r. okHandler) 1500 plainSink noResponse postRequest))
      = map snd (hvObserved (reqSize firstMiddleware)) @ [real_of_int (approximate_request_size postRequest)]"
    unfolding Let_def by blast
  show ?thesis
    using a b c d
    by (simp add: getMetrics_route postRequest_route approximate_getMetrics
        approximate_postRequest firstMiddleware_eq)
qed

theorem C6_counterexample:
  "map snd (request_sizes (InstrumentHandlerDuration firstMiddleware (\<lambda>r. okHandler) 1500 plainSink noResponse negativeLengthRequest))
       = [49]
   \<and> claimed_request_size negativeLengthRequest = 51
   \<and> map snd (request_sizes (InstrumentHandlerDuration firstMiddleware (\<lambda>r. okHandler) 1500 plainSink noResponse roundedLengthRequest))
       = [9007199254741044]
   \<and> claimed_request_size roundedLengthRequest = 9007199254741045
   \<and> map snd (request_sizes (InstrumentHandlerDuration firstMiddleware (\<lambda>r. okHandler) 1500 plainSink noResponse hugeLengthRequest))
       = [- 9223372036854775808]
   \<and> claimed_request_size hugeLengthRequest = 9223372036854775858"
proof -
  have a: "approximate_request_size negativeLengthRequest = 49"
    by (simp add: approximate_request_size_def fixed_request_size_def header_bytes_def
        negativeLengthRequest_def getMetrics_def)
  have b: "claimed_request_size negativeLengthRequest = 51"
    by (simp add: claimed_request_size_def fixed_request_size_def header_bytes_def
        negativeLengthRequest_def getMetrics_def)
  have c: "approximate_request_size hugeLengthRequest = 9223372036854775858"
    by (simp add: approximate_request_size_def fixed_request_size_def header_bytes_def
        hugeLengthRequest_def getMetrics_def)
  have d: "claimed_request_size hugeLengthRequest = 9223372036854775858"
    by (simp add: claimed_request_size_def fixed_request_size_def header_bytes_def
        hugeLengthRequest_def getMetrics_def)
  have e: "approximate_request_size roundedLengthRequest = 9007199254741045"
    by (simp add: approximate_request_size_def fixed_request_size_def header_bytes_def
        roundedLengthRequest_def getMetrics_def)
  have f: "claimed_request_size roundedLengthRequest = 9007199254741045"
    by (simp add: claimed_request_size_def fixed_request_size_def header_bytes_def
        roundedLengthRequest_def getMetrics_def)
  have g: "float64 (word_of_int 49) = 49"
    using float64_exact [of 49] by simp
  have h: "float64 (word_of_int 9007199254741045) = 9007199254741044"
    by (simp add: float64_def signed_of_int nearest_float64_tie)
  have i: "float64 (word_of_int 9223372036854775858) = - 9223372036854775808"
    by (simp add: float64_def signed_of_int nearest_float64_wrapped)
  show ?thesis
    unfolding request_sizes_with_route [OF negativeLengthRequest_route]
      request_sizes_with_route [OF roundedLengthRequest_route]
      request_sizes_with_route [OF hugeLengthRequest_route]
      computeApproximateRequestSize_wraps a b c d e f g h i
    by (simp add: firstMiddleware_eq)
qed

subsection \<open>C7: the size observed for the response\<close>

text \<open>
  C7 says that for every request the value observed into the response-size histogram is
  the total of the byte counts that the sink reported for the write calls of the inner
  handler (three writes reporting 10, 20 and 5 bytes give 35). A request that carries no
  route ends in the panic of C3 after the handler has written: nothing is observed.

  Amended: for a request that carries a route, every write of the inner handler gets the
  \<open>n\<close> that the wrapped sink returned for it, and the value observed is the total of
  these \<open>n\<close>, added up in an \<^verbatim>\<open>int64\<close> and converted to \<^verbatim>\<open>float64\<close>: the total
  itself whenever it is at most \<open>2\<^sup>5\<^sup>3\<close> in absolute value.
\<close>

theorem C7_response_size_observed:
  assumes "CurrentRoute r = Some rt"
  shows "let res = InstrumentHandlerDuration p next elapsed w s r;
             reported = map fst (replies w (forwarded False (calls res)) s)
         in write_counts (calls res) = reported
            \<and> map snd (response_sizes res) =
                 map snd (hvObserved (resSize p)) @ [float64 (sum_list reported)]
            \<and> (\<bar>sum_list (map sint reported)\<bar> \<le> 2 ^ 53 \<longrightarrow>
                 map snd (response_sizes res) =
                   map snd (hvObserved (resSize p)) @ [real_of_int (sum_list (map sint reported))])"
proof -
  obtain tr d' where run: "ServeHTTP (delegator w) (next r) (fresh s) = (tr, d')"
    by (cases "ServeHTTP (delegator w) (next r) (fresh s)")
  let ?reported = "map fst (replies w (forwarded False tr) s)"
  have rep: "write_counts tr = ?reported"
    using serve_replies [of w "next r" "fresh s"] by (simp add: run write_counts_results)
  have a: "written d' = sum_list ?reported"
    using serve_written [OF run] rep by simp
  have b: "\<bar>sum_list (map sint ?reported)\<bar> \<le> 2 ^ 53 \<longrightarrow>
      float64 (sum_list ?reported) = real_of_int (sum_list (map sint ?reported))"
    using float64_exact [of "sum_list (map sint ?reported)"] sum_list_sint [of ?reported]
    by simp
  show ?thesis
    using rep a b
    by (simp add: Let_def response_sizes_with_route [OF assms] calls_eq run)
qed

theorem C7_witness:
  "CurrentRoute getMetrics = Some metricsRoute
   \<and> map fst (replies plainSink (forwarded False (calls (InstrumentHandlerDuration firstMiddleware (\<lambda>r. threeWritesHandler) 1500 plainSink noResponse getMetrics))) noResponse)
       = [10, 20, 5]
   \<and> map snd (response_sizes (InstrumentHandlerDuration firstMiddleware (\<lambda>r. threeWritesHandler) 1500 plainSink noResponse getMetrics))
       = [35]
   \<and> map fst (replies shortSink (forwarded False (calls (InstrumentHandlerDuration firstMiddleware (\<lambda>r. threeWritesHandler) 1500 shortSink noResponse getMetrics))) noResponse)
       = [8, 8, 5]
   \<and> map snd (response_sizes (InstrumentHandlerDuration firstMiddleware (\<lambda>r. threeWritesHandler) 1500 shortSink noResponse getMetrics))
       = [21]"
proof -
  have a: "map fst (replies plainSink (forwarded False (calls (InstrumentHandlerDuration firstMiddleware (\<lambda>r. threeWritesHandler) 1500 plainSink noResponse getMetrics))) noResponse)
       = [10, 20, 5]"
    unfolding calls_eq plain_threeWrites_delegated
    by (simp add: plainSink_def noResponse_def StatusOK_def len_def)
  have b: "map fst (replies shortSink (forwarded False (calls (InstrumentHandlerDuration firstMiddleware (\<lambda>r. threeWritesHandler) 1500 shortSink noResponse getMetrics))) noResponse)
       = [8, 8, 5]"
    unfolding calls_eq short_threeWrites_delegated
    by (simp add: shortSink_def plainSink_def noResponse_def StatusOK_def len_def)
  have small: "\<bar>sum_list (map sint [10, 20, 5 :: 64 word])\<bar> \<le> 2 ^ 53"
    "\<bar>sum_list (map sint [8, 8, 5 :: 64 word])\<bar> \<le> 2 ^ 53"
    by simp_all
  from C7_response_size_observed [OF getMetrics_route, of firstMiddleware "\<lambda>r. threeWritesHandler" 1500 plainSink noResponse, unfolded Let_def a]
    small(1)
  have c: "map snd (response_sizes (InstrumentHandlerDuration firstMiddleware (\<lambda>r. threeWritesHandler) 1500 plainSink noResponse getMetrics))
      = map snd (hvObserved (resSize firstMiddleware)) @ [real_of_int (sum_list (map sint [10, 20, 5 :: 64 word]))]"
    by blast
  from C7_response_size_observed [OF getMetrics_route, of firstMiddleware "\<lambda>r. threeWritesHandler" 1500 shortSink noResponse, unfolded Let_def b]
    small(2)
  have d: "map snd (response_sizes (InstrumentHandlerDuration firstMiddleware (\<lambda>r. threeWritesHandler) 1500 shortSink noResponse getMetrics))
      = map snd (hvObserved (resSize firstMiddleware)) @ [real_of_int (sum_list (map sint [8, 8, 5 :: 64 word]))]"
    by blast
  show ?thesis
    using a b c d by (simp add: getMetrics_route firstMiddleware_eq)
qed

theorem C7_counterexample:
  "CurrentRoute noRouteRequest = None
   \<and> write_counts (calls (InstrumentHandlerDuration firstMiddleware (\<lambda>r. threeWritesHandler) 1500 plainSink noResponse noRouteRequest))
       = [10, 20, 5]
   \<and> body (sink (InstrumentHandlerDuration firstMiddleware (\<lambda>r. threeWritesHandler) 1500 plainSink noResponse noRouteRequest))
       = ''01234567890123456789012345678901234''
   \<and> response_sizes (InstrumentHandlerDuration firstMiddleware (\<lambda>r. threeWritesHandler) 1500 plainSink noResponse noRouteRequest)
       = []"
  by (simp add: noRouteRequest_route response_sizes_def calls_eq sink_eq
      Instrument_without_route [OF noRouteRequest_route] Let_def plain_threeWrites_delegated)

subsection \<open>C8: a name that is already registered\<close>

text \<open>
  C8: when the registration of an instrument fails because its name is taken, the
  constructor does not panic or stop: it writes one log line for that instrument and
  goes on, and it returns the same middleware as on an empty registry, whatever the
  registry holds. Afterwards all four names are registered. Constructing a second
  middleware with the same options logs the four lines, changes nothing else, and
  returns the same value again.
\<close>

theorem C8_duplicate_names_are_logged:
  "let m = fst (NewPrometheusMiddleware opts ps);
       ps' = snd (NewPrometheusMiddleware opts ps);
       n1 = cvName (request m); n2 = hvName (latency m);
       n3 = hvName (reqSize m); n4 = hvName (resSize m)
   in m = fst (NewPrometheusMiddleware opts emptyProcess)
      \<and> set (registry ps') = set (registry ps) \<union> {n1, n2, n3, n4}
      \<and> set (logged ps) \<subseteq> set (logged ps')
      \<and> (n1 \<in> set (registry ps) \<longrightarrow>
           (''prometheusMiddleware.request was not registered:'', AlreadyRegisteredError n1)
             \<in> set (logged ps'))
      \<and> (n2 \<in> set (registry ps) \<longrightarrow>
           (''prometheusMiddleware.latency was not registered:'', AlreadyRegisteredError n2)
             \<in> set (logged ps'))
      \<and> (n3 \<in> set (registry ps) \<longrightarrow>
           (''prometheusMiddleware.reqSize was not registered:'', AlreadyRegisteredError n3)
             \<in> set (logged ps'))
      \<and> (n4 \<in> set (registry ps) \<longrightarrow>
           (''prometheusMiddleware.resSize was not registered:'', AlreadyRegisteredError n4)
             \<in> set (logged ps'))
      \<and> NewPrometheusMiddleware opts ps' =
           (m, ps'\<lparr>logged := logged ps' @
              [(''prometheusMiddleware.request was not registered:'', AlreadyRegisteredError n1),
               (''prometheusMiddleware.latency was not registered:'', AlreadyRegisteredError n2),
               (''prometheusMiddleware.reqSize was not registered:'', AlreadyRegisteredError n3),
               (''prometheusMiddleware.resSize was not registered:'', AlreadyRegisteredError n4)]\<rparr>)"
proof -
  define n1 where "n1 = BuildFQName (Subsystem opts) ''http_requests_total''"
  define n2 where "n2 = BuildFQName (Subsystem opts) ''http_request_duration_seconds''"
  define m1 where "m1 = ''prometheusMiddleware.request was not registered:''"
  define m2 where "m2 = ''prometheusMiddleware.latency was not registered:''"
  define m3 where "m3 = ''prometheusMiddleware.reqSize was not registered:''"
  define m4 where "m4 = ''prometheusMiddleware.resSize was not registered:''"
  define q1 where "q1 = register_or_log n1 m1 ps"
  define q2 where "q2 = register_or_log n2 m2 q1"
  define q3 where "q3 = register_or_log ''request_size_bytes'' m3 q2"
  define q4 where "q4 = register_or_log ''response_size_bytes'' m4 q3"
  have ps': "snd (NewPrometheusMiddleware opts ps) = q4"
    by (simp add: NewPrometheusMiddleware_process q4_def q3_def q2_def q1_def n1_def n2_def
        m1_def m2_def m3_def m4_def)
  have names: "cvName (request (fst (NewPrometheusMiddleware opts ps))) = n1"
    "hvName (latency (fst (NewPrometheusMiddleware opts ps))) = n2"
    "hvName (reqSize (fst (NewPrometheusMiddleware opts ps))) = ''request_size_bytes''"
    "hvName (resSize (fst (NewPrometheusMiddleware opts ps))) = ''response_size_bytes''"
    by (simp_all add: NewPrometheusMiddleware_instruments n1_def n2_def)
  have same: "fst (NewPrometheusMiddleware opts ps) = fst (NewPrometheusMiddleware opts emptyProcess)"
    by (simp add: NewPrometheusMiddleware_instruments)
  have reg: "set (registry q4) = set (registry ps) \<union> {n1, n2, ''request_size_bytes'', ''response_size_bytes''}"
    by (auto simp: q4_def q3_def q2_def q1_def registry_register_or_log)
  have grow: "set (logged ps) \<subseteq> set (logged q1)" "set (logged q1) \<subseteq> set (logged q2)"
    "set (logged q2) \<subseteq> set (logged q3)" "set (logged q3) \<subseteq> set (logged q4)"
    unfolding q1_def q2_def q3_def q4_def by (rule logged_register_or_log)+
  have in1: "n1 \<in> set (registry ps) \<longrightarrow> (m1, AlreadyRegisteredError n1) \<in> set (logged q4)"
    using grow logged_register_or_log_taken [of n1 ps m1] by (auto simp: q1_def)
  have in2: "n2 \<in> set (registry ps) \<longrightarrow> (m2, AlreadyRegisteredError n2) \<in> set (logged q4)"
    using grow logged_register_or_log_taken [of n2 q1 m2]
    by (auto simp: q2_def q1_def registry_register_or_log)
  have in3: "''request_size_bytes'' \<in> set (registry ps) \<longrightarrow>
      (m3, AlreadyRegisteredError ''request_size_bytes'') \<in> set (logged q4)"
    using grow logged_register_or_log_taken [of "''request_size_bytes''" q2 m3]
    by (auto simp: q3_def q2_def q1_def registry_register_or_log)
  have in4: "''response_size_bytes'' \<in> set (registry ps) \<longrightarrow>
      (m4, AlreadyRegisteredError ''response_size_bytes'') \<in> set (logged q4)"
    using logged_register_or_log_taken [of "''response_size_bytes''" q3 m4]
    by (auto simp: q4_def q3_def q2_def q1_def registry_register_or_log)
  have r1: "n1 \<in> set (registry q4)" and r2: "n2 \<in> set (registry q4)"
    and r3: "''request_size_bytes'' \<in> set (registry q4)"
    and r4: "''response_size_bytes'' \<in> set (registry q4)"
    using reg by auto
  have again: "snd (NewPrometheusMiddleware opts q4) =
      q4\<lparr>logged := logged q4 @
        [(m1, AlreadyRegisteredError n1), (m2, AlreadyRegisteredError n2),
         (m3, AlreadyRegisteredError ''request_size_bytes''),
         (m4, AlreadyRegisteredError ''response_size_bytes'')]\<rparr>"
    using r1 r2 r3 r4
    by (simp add: NewPrometheusMiddleware_process register_or_log_taken n1_def n2_def
        m1_def m2_def m3_def m4_def)
  have again_fst: "fst (NewPrometheusMiddleware opts q4) = fst (NewPrometheusMiddleware opts ps)"
    by (simp add: NewPrometheusMiddleware_instruments)
  have pair: "NewPrometheusMiddleware opts q4 =
      (fst (NewPrometheusMiddleware opts ps),
       q4\<lparr>logged := logged q4 @
        [(m1, AlreadyRegisteredError n1), (m2, AlreadyRegisteredError n2),
         (m3, AlreadyRegisteredError ''request_size_bytes''),
         (m4, AlreadyRegisteredError ''response_size_bytes'')]\<rparr>)"
    using again again_fst by (simp add: prod_eq_iff)
  show ?thesis
    unfolding Let_def ps' names
    using same reg grow in1 in2 in3 in4 pair
    by (auto simp: m1_def m2_def m3_def m4_def)
qed

theorem C8_witness:
  "cvName (request (fst (NewPrometheusMiddleware defaultOpts takenProcess)))
     \<in> set (registry takenProcess)
   \<and> (''prometheusMiddleware.request was not registered:'',
        AlreadyRegisteredError (cvName (request (fst (NewPrometheusMiddleware defaultOpts takenProcess)))))
       \<in> set (logged (snd (NewPrometheusMiddleware defaultOpts takenProcess)))
   \<and> fst (NewPrometheusMiddleware defaultOpts takenProcess) = firstMiddleware
   \<and> logged (snd (NewPrometheusMiddleware defaultOpts takenProcess)) =
       [(''prometheusMiddleware.request was not registered:'',
         AlreadyRegisteredError ''http_requests_total'')]
   \<and> NewPrometheusMiddleware defaultOpts (snd (NewPrometheusMiddleware defaultOpts emptyProcess)) =
       (firstMiddleware,
        \<lparr>registry = [''http_requests_total'', ''http_request_duration_seconds'',
                     ''request_size_bytes'', ''response_size_bytes''],
         logged =
           [(''prometheusMiddleware.request was not registered:'',
             AlreadyRegisteredError ''http_requests_total''),
            (''prometheusMiddleware.latency was not registered:'',
             AlreadyRegisteredError ''http_request_duration_seconds''),
            (''prometheusMiddleware.reqSize was not registered:'',
             AlreadyRegisteredError ''request_size_bytes''),
            (''prometheusMiddleware.resSize was not registered:'',
             AlreadyRegisteredError ''response_size_bytes'')]\<rparr>)"
proof -
  have a: "fst (NewPrometheusMiddleware defaultOpts takenProcess) = firstMiddleware"
    by (simp add: firstMiddleware_def NewPrometheusMiddleware_instruments)
  have b: "cvName (request firstMiddleware) \<in> set (registry takenProcess)"
    by (simp add: firstMiddleware_eq takenProcess_def)
  have c: "NewPrometheusMiddleware defaultOpts (snd (NewPrometheusMiddleware defaultOpts emptyProcess)) =
       (firstMiddleware,
        \<lparr>registry = [''http_requests_total'', ''http_request_duration_seconds'',
                     ''request_size_bytes'', ''response_size_bytes''],
         logged =
           [(''prometheusMiddleware.request was not registered:'',
             AlreadyRegisteredError ''http_requests_total''),
            (''prometheusMiddleware.latency was not registered:'',
             AlreadyRegisteredError ''http_request_duration_seconds''),
            (''prometheusMiddleware.reqSize was not registered:'',
             AlreadyRegisteredError ''request_size_bytes''),
            (''prometheusMiddleware.resSize was not registered:'',
             AlreadyRegisteredError ''response_size_bytes'')]\<rparr>)"
    using C8_duplicate_names_are_logged [of defaultOpts emptyProcess]
    by (simp add: Let_def firstMiddleware_def [symmetric] process_after_first firstMiddleware_eq)
  have d: "(''prometheusMiddleware.request was not registered:'',
        AlreadyRegisteredError (cvName (request firstMiddleware)))
       \<in> set (logged (snd (NewPrometheusMiddleware defaultOpts takenProcess)))"
    using C8_duplicate_names_are_logged [of defaultOpts takenProcess] b
    by (simp add: Let_def a)
  show ?thesis
    using a b c d by (simp add: process_after_taken)
qed

subsection \<open>C9: one label triple for the four instruments\<close>

text \<open>
  C9 says that for every request, after the inner handler has returned, the four
  instruments are updated with the same label values (code, method, path), the counter
  by exactly 1 and each histogram by one observation, the method label being the request
  method in lower case; and that the three histograms are built with the same buckets,
  0.3, 1.0, 2.5, 5.0 when none are configured. A request that carries no route ends in
  the panic of C3 after the inner handler has returned: no instrument is updated.

  Amended: for every request that carries a route and that the inner handler leaves as
  it is, the wrapper returns normally and the four instruments are updated with one and
  the same label triple, the counter by exactly 1 and each histogram by one observation,
  the buckets left alone. The method label is what \<^verbatim>\<open>strings.ToLower\<close> makes of the
  request method: for a method of ASCII bytes, as every method the server accepts is, the
  method with \<^verbatim>\<open>A\<close>..\<^verbatim>\<open>Z\<close> replaced by \<^verbatim>\<open>a\<close>..\<^verbatim>\<open>z\<close>; of the label of
  another method nothing more is stated than that the four instruments get the same one.
  The three histograms are built with the same buckets, 0.3, 1.0, 2.5, 5.0 when none are
  configured.
\<close>

theorem C9_four_instruments_one_label_triple:
  assumes "CurrentRoute r = Some rt"
  shows "(\<exists>p' code method path secs reqBytes resBytes.
            outcome (InstrumentHandlerDuration p next elapsed w s r) = Inr p'
            \<and> cvIncs (request p') = cvIncs (request p) @ [[code, method, path]]
            \<and> counterValue (request p') [code, method, path]
                = counterValue (request p) [code, method, path] + 1
            \<and> hvObserved (latency p') = hvObserved (latency p) @ [([code, method, path], secs)]
            \<and> hvObserved (reqSize p') = hvObserved (reqSize p) @ [([code, method, path], reqBytes)]
            \<and> hvObserved (resSize p') = hvObserved (resSize p) @ [([code, method, path], resBytes)]
            \<and> hvBuckets (latency p') = hvBuckets (latency p)
            \<and> hvBuckets (reqSize p') = hvBuckets (reqSize p)
            \<and> hvBuckets (resSize p') = hvBuckets (resSize p)
            \<and> ((\<forall>c \<in> set (Method r). of_char c < (128::nat)) \<longrightarrow>
                  method = map lower_byte (Method r)))
         \<and> (let m = fst (NewPrometheusMiddleware opts ps);
                 buckets = (if Buckets opts = [] then [0.3, 1.0, 2.5, 5.0] else Buckets opts)
             in hvBuckets (latency m) = buckets \<and> hvBuckets (reqSize m) = buckets
                \<and> hvBuckets (resSize m) = buckets)"
proof -
  let ?run = "ServeHTTP (delegator w) (next r) (fresh s)"
  let ?lvs = "[sanitizeCode (status (snd ?run)), sanitizeMethod (Method r), pathTemplateOrEmpty rt]"
  let ?p' = "record_request ?lvs (seconds elapsed) (float64 (computeApproximateRequestSize r))
      (float64 (written (snd ?run))) p"
  have out: "outcome (InstrumentHandlerDuration p next elapsed w s r) = Inr ?p'"
    by (simp add: outcome_with_route [OF assms])
  have upd: "cvIncs (request ?p') = cvIncs (request p) @ [?lvs]"
    "counterValue (request ?p') ?lvs = counterValue (request p) ?lvs + 1"
    "hvObserved (latency ?p') = hvObserved (latency p) @ [(?lvs, seconds elapsed)]"
    "hvObserved (reqSize ?p') =
       hvObserved (reqSize p) @ [(?lvs, float64 (computeApproximateRequestSize r))]"
    "hvObserved (resSize ?p') = hvObserved (resSize p) @ [(?lvs, float64 (written (snd ?run)))]"
    "hvBuckets (latency ?p') = hvBuckets (latency p)"
    "hvBuckets (reqSize ?p') = hvBuckets (reqSize p)"
    "hvBuckets (resSize ?p') = hvBuckets (resSize p)"
    by (simp_all add: record_request_def Inc_def Observe_def counterValue_def)
  have lower: "(\<forall>c \<in> set (Method r). of_char c < (128::nat)) \<longrightarrow>
      sanitizeMethod (Method r) = map lower_byte (Method r)"
    by (simp add: sanitizeMethod_def ToLower_def)
  have first: "\<exists>p' code method path secs reqBytes resBytes.
            outcome (InstrumentHandlerDuration p next elapsed w s r) = Inr p'
            \<and> cvIncs (request p') = cvIncs (request p) @ [[code, method, path]]
            \<and> counterValue (request p') [code, method, path]
                = counterValue (request p) [code, method, path] + 1
            \<and> hvObserved (latency p') = hvObserved (latency p) @ [([code, method, path], secs)]
            \<and> hvObserved (reqSize p') = hvObserved (reqSize p) @ [([code, method, path], reqBytes)]
            \<and> hvObserved (resSize p') = hvObserved (resSize p) @ [([code, method, path], resBytes)]
            \<and> hvBuckets (latency p') = hvBuckets (latency p)
            \<and> hvBuckets (reqSize p') = hvBuckets (reqSize p)
            \<and> hvBuckets (resSize p') = hvBuckets (resSize p)
            \<and> ((\<forall>c \<in> set (Method r). of_char c < (128::nat)) \<longrightarrow>
                  method = map lower_byte (Method r))"
    using out upd lower by blast
  have second: "let m = fst (NewPrometheusMiddleware opts ps);
                 buckets = (if Buckets opts = [] then [0.3, 1.0, 2.5, 5.0] else Buckets opts)
             in hvBuckets (latency m) = buckets \<and> hvBuckets (reqSize m) = buckets
                \<and> hvBuckets (resSize m) = buckets"
    by (simp add: Let_def NewPrometheusMiddleware_instruments)
  from first second show ?thesis by blast
qed

theorem C9_witness:
  "CurrentRoute getMetrics = Some metricsRoute
   \<and> Method getMetrics = ''GET''
   \<and> map lower_byte (Method getMetrics) = ''get''
   \<and> (\<exists>p' code path.
         outcome (InstrumentHandlerDuration firstMiddleware (\<lambda>r. okHandler) 1500000000 plainSink noResponse getMetrics) = Inr p'
         \<and> cvIncs (request p') = cvIncs (request firstMiddleware) @ [[code, ''get'', path]]
         \<and> hvObserved (latency p') = hvObserved (latency firstMiddleware) @ [([code, ''get'', path], 1.5)]
         \<and> hvObserved (reqSize p') = hvObserved (reqSize firstMiddleware) @ [([code, ''get'', path], 51)]
         \<and> hvObserved (resSize p') = hvObserved (resSize firstMiddleware) @ [([code, ''get'', path], 2)])
   \<and> outcome (InstrumentHandlerDuration firstMiddleware (\<lambda>r. okHandler) 1500000000 plainSink noResponse getMetrics)
       = Inr (firstMiddleware
           \<lparr>request := (request firstMiddleware)\<lparr>cvIncs := [[''200'', ''get'', ''/metrics'']]\<rparr>,
            latency := (latency firstMiddleware)\<lparr>hvObserved := [([''200'', ''get'', ''/metrics''], 1.5)]\<rparr>,
            reqSize := (reqSize firstMiddleware)\<lparr>hvObserved := [([''200'', ''get'', ''/metrics''], 51)]\<rparr>,
            resSize := (resSize firstMiddleware)\<lparr>hvObserved := [([''200'', ''get'', ''/metrics''], 2)]\<rparr>\<rparr>)
   \<and> hvBuckets (latency firstMiddleware) = [0.3, 1.0, 2.5, 5.0]
   \<and> hvBuckets (reqSize firstMiddleware) = [0.3, 1.0, 2.5, 5.0]
   \<and> hvBuckets (resSize firstMiddleware) = [0.3, 1.0, 2.5, 5.0]"
proof -
  have out: "outcome (InstrumentHandlerDuration firstMiddleware (\<lambda>r. okHandler) 1500000000 plainSink noResponse getMetrics)
       = Inr (firstMiddleware
           \<lparr>request := (request firstMiddleware)\<lparr>cvIncs := [[''200'', ''get'', ''/metrics'']]\<rparr>,
            latency := (latency firstMiddleware)\<lparr>hvObserved := [([''200'', ''get'', ''/metrics''], 1.5)]\<rparr>,
            reqSize := (reqSize firstMiddleware)\<lparr>hvObserved := [([''200'', ''get'', ''/metrics''], 51)]\<rparr>,
            resSize := (resSize firstMiddleware)\<lparr>hvObserved := [([''200'', ''get'', ''/metrics''], 2)]\<rparr>\<rparr>)"
    by (simp add: outcome_with_route [OF getMetrics_route] plain_ok_delegated
        computeApproximateRequestSize_wraps approximate_getMetrics record_request_def Inc_def
        Observe_def firstMiddleware_eq sanitizeCode_200 Method_getMetrics sanitizeMethod_GET
        pathTemplateOrEmpty_def metricsRoute_def seconds_def float64_def nearest_float64_exact)
  have ascii: "\<forall>c \<in> set (Method getMetrics). of_char c < (128::nat)"
    by (simp add: Method_getMetrics)
  have lower: "map lower_byte (Method getMetrics) = ''get''"
    using sanitizeMethod_GET by (simp add: sanitizeMethod_def ToLower_def Method_getMetrics)
  have "let m = fst (NewPrometheusMiddleware defaultOpts emptyProcess);
            buckets = (if Buckets defaultOpts = [] then [0.3, 1.0, 2.5, 5.0] else Buckets defaultOpts)
        in hvBuckets (latency m) = buckets \<and> hvBuckets (reqSize m) = buckets
           \<and> hvBuckets (resSize m) = buckets"
    using C9_four_instruments_one_label_triple [OF getMetrics_route,
        of firstMiddleware "\<lambda>r. okHandler" 1500000000 plainSink noResponse defaultOpts emptyProcess]
    by blast
  then have buckets: "hvBuckets (latency firstMiddleware) = [0.3, 1.0, 2.5, 5.0]
      \<and> hvBuckets (reqSize firstMiddleware) = [0.3, 1.0, 2.5, 5.0]
      \<and> hvBuckets (resSize firstMiddleware) = [0.3, 1.0, 2.5, 5.0]"
    by (simp add: Let_def firstMiddleware_def defaultOpts_def)
  from C9_four_instruments_one_label_triple [OF getMetrics_route,
      of firstMiddleware "\<lambda>r. okHandler" 1500000000 plainSink noResponse defaultOpts emptyProcess]
  obtain p' cd md pth sc rq rs where
    run: "outcome (InstrumentHandlerDuration firstMiddleware (\<lambda>r. okHandler) 1500000000 plainSink noResponse getMetrics) = Inr p'"
    and c: "cvIncs (request p') = cvIncs (request firstMiddleware) @ [[cd, md, pth]]"
    and l: "hvObserved (latency p') = hvObserved (latency firstMiddleware) @ [([cd, md, pth], sc)]"
    and q: "hvObserved (reqSize p') = hvObserved (reqSize firstMiddleware) @ [([cd, md, pth], rq)]"
    and z: "hvObserved (resSize p') = hvObserved (resSize firstMiddleware) @ [([cd, md, pth], rs)]"
    and m: "(\<forall>c \<in> set (Method getMetrics). of_char c < (128::nat)) \<longrightarrow>
        md = map lower_byte (Method getMetrics)"
    by blast
  from m ascii lower have md: "md = ''get''"
    by simp
  from run out have p': "p' = firstMiddleware
           \<lparr>request := (request firstMiddleware)\<lparr>cvIncs := [[''200'', ''get'', ''/metrics'']]\<rparr>,
            latency := (latency firstMiddleware)\<lparr>hvObserved := [([''200'', ''get'', ''/metrics''], 1.5)]\<rparr>,
            reqSize := (reqSize firstMiddleware)\<lparr>hvObserved := [([''200'', ''get'', ''/metrics''], 51)]\<rparr>,
            resSize := (resSize firstMiddleware)\<lparr>hvObserved := [([''200'', ''get'', ''/metrics''], 2)]\<rparr>\<rparr>"
    by simp
  from l have sc: "sc = 1.5"
    unfolding p' by (simp add: firstMiddleware_eq)
  from q have rq: "rq = 51"
    unfolding p' by (simp add: firstMiddleware_eq)
  from z have rs: "rs = 2"
    unfolding p' by (simp add: firstMiddleware_eq)
  have ex: "\<exists>p' code path.
         outcome (InstrumentHandlerDuration firstMiddleware (\<lambda>r. okHandler) 1500000000 plainSink noResponse getMetrics) = Inr p'
         \<and> cvIncs (request p') = cvIncs (request firstMiddleware) @ [[code, ''get'', path]]
         \<and> hvObserved (latency p') = hvObserved (latency firstMiddleware) @ [([code, ''get'', path], 1.5)]
         \<and> hvObserved (reqSize p') = hvObserved (reqSize firstMiddleware) @ [([code, ''get'', path], 51)]
         \<and> hvObserved (resSize p') = hvObserved (resSize firstMiddleware) @ [([code, ''get'', path], 2)]"
    using run c l q z unfolding md sc rq rs by blast
  from out buckets lower Method_getMetrics getMetrics_route ex show ?thesis
    by blast
qed

theorem C9_counterexample:
  "CurrentRoute noRouteRequest = None
   \<and> calls (InstrumentHandlerDuration firstMiddleware (\<lambda>r. bodyOnlyHandler) 1500 plainSink noResponse noRouteRequest)
       = [EvWrite ''ok'' (2, None)]
   \<and> outcome (InstrumentHandlerDuration firstMiddleware (\<lambda>r. bodyOnlyHandler) 1500 plainSink noResponse noRouteRequest)
       = Inl NilPointerDereference
   \<and> counted (InstrumentHandlerDuration firstMiddleware (\<lambda>r. bodyOnlyHandler) 1500 plainSink noResponse noRouteRequest)
       = []
   \<and> latencies (InstrumentHandlerDuration firstMiddleware (\<lambda>r. bodyOnlyHandler) 1500 plainSink noResponse noRouteRequest)
       = []
   \<and> request_sizes (InstrumentHandlerDuration firstMiddleware (\<lambda>r. bodyOnlyHandler) 1500 plainSink noResponse noRouteRequest)
       = []
   \<and> response_sizes (InstrumentHandlerDuration firstMiddleware (\<lambda>r. bodyOnlyHandler) 1500 plainSink noResponse noRouteRequest)
       = []"
  by (simp add: noRouteRequest_route counted_def latencies_def request_sizes_def
      response_sizes_def calls_eq Instrument_without_route [OF noRouteRequest_route] Let_def
      plain_bodyOnly_delegated)

subsection \<open>C10: a request whose URL is nil\<close>

text \<open>
  C10: \<^verbatim>\<open>computeApproximateRequestSize\<close> returns for every request; when the URL is
  nil the path contributes nothing, and the result is the sum of the remaining terms
  (method, protocol, headers, host, and the content length when it is not \<open>-1\<close>), the
  same as for an empty path.
\<close>

theorem C10_nil_URL_counts_as_empty_path:
  assumes "URL r = None"
  shows "computeApproximateRequestSize r =
           len (Method r) + len (Proto r) + word_of_int (header_bytes (Header r)) + len (Host r)
             + (if ContentLength r \<noteq> - 1 then ContentLength r else 0)
         \<and> computeApproximateRequestSize r =
             computeApproximateRequestSize (r\<lparr>URL := Some \<lparr>Path = []\<rparr>\<rparr>)"
  using assms
  by (simp add: computeApproximateRequestSize_def header_loop_sum Let_def len_def)

theorem C10_witness:
  "URL nilURLRequest = None
   \<and> computeApproximateRequestSize nilURLRequest = 43
   \<and> computeApproximateRequestSize (nilURLRequest\<lparr>URL := Some \<lparr>Path = []\<rparr>\<rparr>) = 43"
proof -
  have a: "URL nilURLRequest = None"
    by (simp add: nilURLRequest_def)
  have b: "computeApproximateRequestSize (nilURLRequest\<lparr>URL := Some \<lparr>Path = []\<rparr>\<rparr>) = 43"
    by (simp add: computeApproximateRequestSize_def nilURLRequest_def getMetrics_def len_def)
  from C10_nil_URL_counts_as_empty_path [OF a]
  have "computeApproximateRequestSize nilURLRequest =
      computeApproximateRequestSize (nilURLRequest\<lparr>URL := Some \<lparr>Path = []\<rparr>\<rparr>)"
    by blast
  with a b show ?thesis by simp
qed

end
